theory Spec2Isabelle
  imports Complex_Main "HOL-Library.AList"
begin

section \<open>Python values and library functions\<close>

text \<open>
  Tool arguments and server responses are JSON values. A Python \<open>dict\<close> is an association
  list in insertion order (keys distinct), read with \<open>dict.get\<close>. Python floats are taken
  as exact reals; the non-finite floats (\<open>inf\<close>, \<open>nan\<close>) are outside the model.
\<close>

datatype json =
    JNull
  | JBool bool
  | JNum real
  | JStr string
  | JArr "json list"
  | JObj "(string \<times> json) list"

type_synonym pydict = "(string \<times> json) list"

datatype py_exn =
    TypeError
  | ValueError
  | IndexError
  | AttributeError
  | KeyError
  | ZeroDivisionError
  | CsvError
  | RequestException

definition dict_get :: "pydict \<Rightarrow> string \<Rightarrow> json \<Rightarrow> json" where
  "dict_get d k dflt = (case map_of d k of None \<Rightarrow> dflt | Some v \<Rightarrow> v)"

text \<open>
  Functions of the Python runtime and of third-party libraries that the repository calls
  but does not define. They are parameters of the model; \<open>None\<close> stands for the exception
  the library function raises (\<open>ValueError\<close> for \<open>float\<close> and \<open>int\<close> on a malformed
  string, \<open>csv.Error\<close> for the reader, \<open>ValueError\<close> for \<open>urlparse\<close>). Of the result
  of \<open>urlparse\<close> only the components \<open>scheme\<close> and \<open>netloc\<close> are kept, in this order.
\<close>

record pylib =
  float_str :: "string \<Rightarrow> real option"
  int_str :: "string \<Rightarrow> int option"
  str_json :: "json \<Rightarrow> string"
  csv_reader :: "string \<Rightarrow> string list list option"
  str_float :: "real \<Rightarrow> string"
  urlparse :: "string \<Rightarrow> (string \<times> string) option"

definition py_int :: "pylib \<Rightarrow> json \<Rightarrow> py_exn + int" where
  "py_int L v =
     (case v of
        JNum r \<Rightarrow> Inr (if 0 \<le> r then \<lfloor>r\<rfloor> else \<lceil>r\<rceil>)
      | JBool b \<Rightarrow> Inr (if b then 1 else 0)
      | JStr s \<Rightarrow> (case int_str L s of None \<Rightarrow> Inl ValueError | Some i \<Rightarrow> Inr i)
      | _ \<Rightarrow> Inl TypeError)"

definition py_float :: "pylib \<Rightarrow> json \<Rightarrow> py_exn + real" where
  "py_float L v =
     (case v of
        JNum r \<Rightarrow> Inr r
      | JBool b \<Rightarrow> Inr (if b then 1 else 0)
      | JStr s \<Rightarrow> (case float_str L s of None \<Rightarrow> Inl ValueError | Some r \<Rightarrow> Inr r)
      | _ \<Rightarrow> Inl TypeError)"

definition py_str :: "pylib \<Rightarrow> json \<Rightarrow> string" where
  "py_str L v = (case v of JStr s \<Rightarrow> s | _ \<Rightarrow> str_json L v)"

definition py_index :: "'a list \<Rightarrow> int \<Rightarrow> py_exn + 'a" where
  \<comment> \<open>The subscript \<open>xs[i]\<close> of a Python list, which also reads from the end.\<close>
  "py_index xs i =
     (if 0 \<le> i \<and> i < int (length xs) then Inr (xs ! nat i)
      else if i < 0 \<and> - int (length xs) \<le> i then Inr (xs ! nat (int (length xs) + i))
      else Inl IndexError)"

definition lower_char :: "char \<Rightarrow> char" where
  "lower_char c =
     (case map_of (zip ''ABCDEFGHIJKLMNOPQRSTUVWXYZ'' ''abcdefghijklmnopqrstuvwxyz'') c of
        None \<Rightarrow> c | Some l \<Rightarrow> l)"

definition lower :: "string \<Rightarrow> string" where
  \<comment> \<open>\<open>str.lower\<close> on ASCII text.\<close>
  "lower s = map lower_char s"

definition py_truediv :: "real \<Rightarrow> real \<Rightarrow> py_exn + real" where
  "py_truediv a b = (if b = 0 then Inl ZeroDivisionError else Inr (a / b))"

fun py_max :: "real list \<Rightarrow> py_exn + real" where
  "py_max [] = Inl ValueError"
| "py_max (x # xs) = Inr (fold max xs x)"

fun py_min :: "real list \<Rightarrow> py_exn + real" where
  "py_min [] = Inl ValueError"
| "py_min (x # xs) = Inr (fold min xs x)"


section \<open>The tabular executor (\<open>tools/process_csv.py\<close>)\<close>

subsection \<open>\<open>_apply_filters\<close>\<close>

definition compare_op :: "json \<Rightarrow> real \<Rightarrow> real \<Rightarrow> bool" where
  \<comment> \<open>The \<open>if op == ... elif ...\<close> chain: \<open>True\<close> when the loop goes on to the next filter.\<close>
  "compare_op op x val =
     (if op = JStr ''>'' then x > val
      else if op = JStr ''>='' then x \<ge> val
      else if op = JStr ''<'' then x < val
      else if op = JStr ''<='' then x \<le> val
      else if op = JStr ''=='' then x = val
      else if op = JStr ''!='' then x \<noteq> val
      else False)"

definition filter_ok :: "pylib \<Rightarrow> real list \<Rightarrow> json \<Rightarrow> bool" where
  \<comment> \<open>One iteration of the loop; any exception inside the \<open>try\<close> returns \<open>False\<close>.
      A filter that is not a dict has no \<open>get\<close> (\<open>AttributeError\<close>).\<close>
  "filter_ok L row_values f =
     (case f of
        JObj d \<Rightarrow>
          (case py_int L (dict_get d ''column'' (JNum 0)) of
             Inl _ \<Rightarrow> False
           | Inr col \<Rightarrow>
               (case py_float L (dict_get d ''value'' (JNum 0)) of
                  Inl _ \<Rightarrow> False
                | Inr val \<Rightarrow>
                    (case py_index row_values col of
                       Inl _ \<Rightarrow> False
                     | Inr x \<Rightarrow> compare_op (dict_get d ''op'' (JStr ''=='')) x val)))
      | _ \<Rightarrow> False)"

fun apply_filters :: "pylib \<Rightarrow> real list \<Rightarrow> json list \<Rightarrow> bool" where
  "apply_filters L row_values [] = True"
| "apply_filters L row_values (f # fs) =
     (if filter_ok L row_values f then apply_filters L row_values fs else False)"

subsection \<open>\<open>process_csv\<close>\<close>

definition row_value :: "pylib \<Rightarrow> int \<Rightarrow> json list \<Rightarrow> string list \<Rightarrow> real option" where
  \<comment> \<open>The body of \<open>for row in reader\<close>: \<open>None\<close> is a \<open>continue\<close>, \<open>Some v\<close> the value appended.\<close>
  "row_value L col_idx filters row =
     (if row = [] then None
      else if col_idx \<ge> int (length row) then None
      else (case those (map (float_str L) row) of
              None \<Rightarrow> None
            | Some row_vals \<Rightarrow>
                if \<not> apply_filters L row_vals filters then None
                else (case py_index row_vals col_idx of
                        Inl _ \<Rightarrow> None
                      | Inr v \<Rightarrow> Some v)))"

fun scan_rows ::
  "pylib \<Rightarrow> int \<Rightarrow> json list \<Rightarrow> string list list \<Rightarrow> real list \<times> nat \<Rightarrow> real list \<times> nat" where
  "scan_rows L col_idx filters [] acc = acc"
| "scan_rows L col_idx filters (row # rows) (vals, rows_matched) =
     (case row_value L col_idx filters row of
        None \<Rightarrow> scan_rows L col_idx filters rows (vals, rows_matched)
      | Some v \<Rightarrow> scan_rows L col_idx filters rows (vals @ [v], rows_matched + 1))"

definition aggregate :: "string \<Rightarrow> real list \<Rightarrow> py_exn + real" where
  "aggregate op_name vals =
     (if vals = [] then Inr 0
      else if op_name \<in> set [''sum'', ''total''] then Inr (sum_list vals)
      else if op_name = ''count'' then Inr (real (length vals))
      else if op_name = ''max'' then py_max vals
      else if op_name = ''min'' then py_min vals
      else if op_name \<in> set [''avg'', ''average'', ''mean'']
        then py_truediv (sum_list vals) (real (length vals))
      else Inr (sum_list vals))"

record csv_result =
  result :: real
  rows_matched :: nat
  operation :: string
  column :: int
  filters :: "json list"

definition process_rows ::
  "pylib \<Rightarrow> string \<Rightarrow> int \<Rightarrow> json list \<Rightarrow> string list list \<Rightarrow> py_exn + csv_result" where
  \<comment> \<open>\<open>process_csv\<close> from the \<open>for\<close> loop on, given the rows the reader yields.\<close>
  "process_rows L op_name col_idx fs rows =
     (case scan_rows L col_idx fs rows ([], 0) of
        (vals, matched) \<Rightarrow>
          (case aggregate op_name vals of
             Inl e \<Rightarrow> Inl e
           | Inr r \<Rightarrow>
               Inr \<lparr>result = r, rows_matched = matched, operation = op_name,
                    column = col_idx, filters = fs\<rparr>))"

definition filters_of :: "pydict \<Rightarrow> json list" where
  \<comment> \<open>\<open>operations.get("filters", [])\<close>, replaced by \<open>[]\<close> when it is not a list.\<close>
  "filters_of operations =
     (case dict_get operations ''filters'' (JArr []) of JArr l \<Rightarrow> l | _ \<Rightarrow> [])"

definition process_csv :: "pylib \<Rightarrow> string \<Rightarrow> pydict \<Rightarrow> py_exn + csv_result" where
  \<comment> \<open>\<open>int(operations.get("column", 0))\<close> stands outside every \<open>try\<close>, and so does the
      iteration over the reader: their exceptions leave the function.\<close>
  "process_csv L csv_text operations =
     (let op_name = lower (py_str L (dict_get operations ''operation'' (JStr ''sum'')))
      in case py_int L (dict_get operations ''column'' (JNum 0)) of
           Inl e \<Rightarrow> Inl e
         | Inr col_idx \<Rightarrow>
             (case csv_reader L csv_text of
                None \<Rightarrow> Inl CsvError
              | Some rows \<Rightarrow> process_rows L op_name col_idx (filters_of operations) rows))"


section \<open>Process-wide state (\<open>shared_store\<close>, \<open>os.environ\<close>, module globals)\<close>

text \<open>
  The module \<open>shared_store\<close> is not among the sources; its two tables are taken as plain
  dicts, as their uses show: \<open>url_time\<close> from task identifiers to start times (every write
  in the sources stores \<open>time.time()\<close>, a float) and \<open>BASE64_STORE\<close> from keys to encoded
  text. A key of \<open>url_time\<close> or of the attempt counter \<open>cache\<close> is what \<open>os.getenv("url")\<close>
  returns (a string or \<open>None\<close>) or the \<open>url\<close> value of a response; lists and dicts are
  not hashable, and \<open>True\<close> is the key \<open>1\<close>.
\<close>

datatype pykey = KNone | KStr string | KNum real

definition key_of :: "json \<Rightarrow> pykey option" where
  "key_of v =
     (case v of
        JNull \<Rightarrow> Some KNone
      | JBool b \<Rightarrow> Some (KNum (if b then 1 else 0))
      | JNum r \<Rightarrow> Some (KNum r)
      | JStr s \<Rightarrow> Some (KStr s)
      | _ \<Rightarrow> None)"

definition env_key :: "string option \<Rightarrow> pykey" where
  "env_key u = (case u of None \<Rightarrow> KNone | Some s \<Rightarrow> KStr s)"

definition env_json :: "string option \<Rightarrow> json" where
  "env_json u = (case u of None \<Rightarrow> JNull | Some s \<Rightarrow> JStr s)"

type_synonym headers = "(string \<times> string) list"

record session =
  environ :: "string \<rightharpoonup> string"
  url_time :: "pykey \<rightharpoonup> real"
  cache :: "pykey \<Rightarrow> nat"
  SECRET :: "string option"
  BASE64_STORE :: "string \<rightharpoonup> string"
  sent :: "(string \<times> pydict \<times> headers) list"

text \<open>
  \<open>cache\<close> is the \<open>defaultdict(int)\<close> of attempt counts, \<open>SECRET\<close> the module global of
  \<open>send_request.py\<close>, and \<open>sent\<close> the POST requests handed to the network so far (it is
  not a variable of the program: it records the calls of \<open>requests.post\<close>).
\<close>

definition truthy :: "json \<Rightarrow> bool" where
  \<comment> \<open>Python's truth value, as tested by \<open>not\<close>.\<close>
  "truthy v =
     (case v of
        JNull \<Rightarrow> False
      | JBool b \<Rightarrow> b
      | JNum r \<Rightarrow> r \<noteq> 0
      | JStr s \<Rightarrow> s \<noteq> []
      | JArr l \<Rightarrow> l \<noteq> []
      | JObj d \<Rightarrow> d \<noteq> [])"

fun starts_with :: "string \<Rightarrow> string \<Rightarrow> bool" where
  \<comment> \<open>\<open>s.startswith(p)\<close>, written \<open>starts_with p s\<close>.\<close>
  "starts_with [] s = True"
| "starts_with (p # ps) [] = False"
| "starts_with (p # ps) (c # cs) = (p = c \<and> starts_with ps cs)"

fun substring :: "string \<Rightarrow> string \<Rightarrow> bool" where
  \<comment> \<open>\<open>sub in s\<close> on strings.\<close>
  "substring sub [] = (sub = [])"
| "substring sub (c # cs) = (starts_with sub (c # cs) \<or> substring sub cs)"


section \<open>The submission coordinator (\<open>tools/send_request.py\<close>, \<open>post_request\<close>)\<close>

definition retry_limit :: nat where
  "retry_limit = 4"

definition blocked_domains :: "string list" where
  "blocked_domains = [''example.com'', ''YOUR_'', ''quiz.example.com'', ''api.example.com'']"

definition blocked :: "string \<Rightarrow> bool" where
  \<comment> \<open>\<open>any(blocked in url for blocked in blocked_domains)\<close>\<close>
  "blocked url = list_ex (\<lambda>b. substring b url) blocked_domains"

text \<open>
  The reply of the network to the one \<open>requests.post\<close> of a call: the call raises a
  connection error, or the status is 4xx/5xx (\<open>raise_for_status\<close> raises; the body is kept
  parsed, or as a JSON string when it is not JSON), or the status is a success and the
  body is not JSON, or it is a success with a JSON body.
\<close>

datatype http_reply =
    Connection_failed
  | Http_failure int json
  | Ok_text string
  | Ok_json json

text \<open>
  What \<open>post_request\<close> returns, one constructor per \<open>return\<close> of the source:
  \<^item> \<open>Invalid_url url\<close> is \<open>{"error": "Invalid URL: <url>. Must be a complete URL with https://"}\<close>;
  \<^item> \<open>Placeholder_url url\<close> is \<open>{"error": "Refusing to send to placeholder URL: <url>. ..."}\<close>;
  \<^item> \<open>Non_json text\<close> is \<open>{"error": "non_json_response", "text": text}\<close>;
  \<^item> \<open>Http_error body status\<close> is \<open>{"error": body, "status_code": status}\<close>;
  \<^item> \<open>Unexpected e\<close> is \<open>{"error": str(e)}\<close>, from \<open>except Exception\<close>;
  \<^item> \<open>Terminate data\<close> is \<open>{"agent_signal": "END", "response": data}\<close>;
  \<^item> \<open>Continue data\<close> is the response dict \<open>data\<close>, possibly rewritten.
\<close>

datatype post_result =
    Invalid_url string
  | Placeholder_url string
  | Non_json string
  | Http_error json int
  | Unexpected py_exn
  | Terminate json
  | Continue pydict

definition is_error :: "post_result \<Rightarrow> bool" where
  \<comment> \<open>The returned dict has the key \<open>error\<close>.\<close>
  "is_error r =
     (case r of Terminate _ \<Rightarrow> False | Continue d \<Rightarrow> map_of d ''error'' \<noteq> None | _ \<Rightarrow> True)"

text \<open>
  The readings of \<open>time.time()\<close> in one call, one per call site, in the order of the
  source: the two of line 161 (\<open>delay\<close> and the default of its \<open>get\<close>), line 176, line 180,
  and the defaults of the \<open>get\<close>s of lines 181 and 187.
\<close>

record clock =
  now_delay :: real
  now_delay_default :: real
  now_touch :: real
  now_cur :: real
  now_prev_default :: real
  now_offset_default :: real

definition resolve_answer :: "session \<Rightarrow> pydict \<Rightarrow> py_exn + pydict" where
  \<comment> \<open>Lines 108-112. \<open>ans.split(":", 1)[1]\<close> is what follows the prefix; a key that is
      not in the store raises \<open>KeyError\<close>.\<close>
  "resolve_answer st payload =
     (case dict_get payload ''answer'' JNull of
        JStr ans \<Rightarrow>
          if starts_with ''BASE64_KEY:'' ans
          then (case BASE64_STORE st (drop 11 ans) of
                  None \<Rightarrow> Inl KeyError
                | Some v \<Rightarrow> Inr (AList.update ''answer'' (JStr v) payload))
          else Inr payload
      | _ \<Rightarrow> Inr payload)"

definition load_secret :: "session \<Rightarrow> session" where
  \<comment> \<open>Lines 115-117.\<close>
  "load_secret st =
     (case SECRET st of None \<Rightarrow> st\<lparr>SECRET := environ st ''SECRET''\<rparr> | Some _ \<Rightarrow> st)"

definition inject_secret :: "session \<Rightarrow> pydict \<Rightarrow> pydict" where
  \<comment> \<open>Lines 118-119.\<close>
  "inject_secret st payload =
     (case SECRET st of
        None \<Rightarrow> payload
      | Some s \<Rightarrow>
          if s \<noteq> [] \<and> \<not> truthy (dict_get payload ''secret'' JNull)
          then AList.update ''secret'' (JStr s) payload
          else payload)"

definition default_headers :: headers where
  "default_headers = [(''Content-Type'', ''application/json'')]"

definition effective_headers :: "headers option \<Rightarrow> headers" where
  \<comment> \<open>\<open>headers or {...}\<close>\<close>
  "effective_headers h = (case h of None \<Rightarrow> default_headers | Some hs \<Rightarrow> if hs = [] then default_headers else hs)"

definition time_of :: "session \<Rightarrow> pykey \<Rightarrow> real \<Rightarrow> real" where
  \<comment> \<open>\<open>url_time.get(key, default)\<close>\<close>
  "time_of st k dflt = (case url_time st k of None \<Rightarrow> dflt | Some t \<Rightarrow> t)"

definition env_accepts :: "string \<Rightarrow> bool" where
  \<comment> \<open>\<open>os.environ[key] = v\<close> for a string \<open>v\<close> raises \<open>ValueError\<close> (embedded null byte)
      when \<open>v\<close> holds the character NUL.\<close>
  "env_accepts v = (CHR 0x00 \<notin> set v)"

definition forward :: "session \<Rightarrow> json \<Rightarrow> pydict \<Rightarrow> post_result \<times> session" where
  \<comment> \<open>Lines 193-198. \<open>os.environ["url"] = forward_url\<close> raises \<open>TypeError\<close> unless
      \<open>forward_url\<close> is a string, and \<open>ValueError\<close> when the string holds NUL; both are
      caught by \<open>except Exception\<close>.\<close>
  "forward st next_url data =
     (case dict_get data ''url'' (JStr []) of
        JStr forward_url \<Rightarrow>
          if env_accepts forward_url
          then
            (let st1 = st\<lparr>environ := (environ st)(''url'' \<mapsto> forward_url)\<rparr>
             in if JStr forward_url = next_url
                then (Continue data, st1\<lparr>environ := (environ st1)(''offset'' \<mapsto> ''0'')\<rparr>)
                else (Continue data, st1))
          else (Unexpected ValueError, st)
      | _ \<Rightarrow> (Unexpected TypeError, st))"

definition give_up :: "session \<Rightarrow> pykey \<Rightarrow> real \<Rightarrow> clock \<Rightarrow> pykey \<Rightarrow> bool" where
  \<comment> \<open>The condition of line 183. \<open>prev\<close> is a float read from \<open>url_time\<close>, so \<open>prev != "0"\<close>
      is true and \<open>float(prev)\<close> is \<open>prev\<close>.\<close>
  "give_up st cur delay clk k =
     (cache st cur \<ge> retry_limit \<or> delay \<ge> 180 \<or>
      now_cur clk - time_of st k (now_prev_default clk) > 90)"

definition handle_response ::
  "pylib \<Rightarrow> clock \<Rightarrow> session \<Rightarrow> string option \<Rightarrow> json \<Rightarrow> post_result \<times> session" where
  \<comment> \<open>Lines 161-198, inside the \<open>try\<close>. A body that is not a dict has no \<open>get\<close>.\<close>
  "handle_response L clk st cur_url body =
     (case body of
        JObj data \<Rightarrow>
          (let delay = now_delay clk - time_of st (env_key cur_url) (now_delay_default clk);
               next_url = dict_get data ''url'' JNull
           in if \<not> truthy next_url then (Terminate body, st)
              else
                (case key_of next_url of
                   None \<Rightarrow> (Unexpected TypeError, st)
                 | Some k \<Rightarrow>
                     (let st1 = (if url_time st k = None
                                 then st\<lparr>url_time := (url_time st)(k \<mapsto> now_touch clk)\<rparr>
                                 else st)
                      in if \<not> truthy (dict_get data ''correct'' JNull)
                         then
                           (if give_up st1 (env_key cur_url) delay clk k
                            then forward st1 next_url [(''url'', dict_get data ''url'' (JStr []))]
                            else
                              forward
                                (st1\<lparr>environ := (environ st1)
                                    (''offset'' \<mapsto>
                                       str_float L (time_of st1 k (now_offset_default clk)))\<rparr>)
                                next_url
                                (AList.update ''message'' (JStr ''Retry Again!'')
                                   (AList.update ''url'' (env_json cur_url) data)))
                         else forward st1 next_url data)))
      | _ \<Rightarrow> (Unexpected AttributeError, st))"

definition attempt :: "session \<Rightarrow> string \<Rightarrow> pydict \<Rightarrow> headers option \<Rightarrow> session" where
  \<comment> \<open>Lines 135-147: \<open>cache[cur_url] += 1\<close>, then the request is handed to the network.\<close>
  "attempt st url payload hdrs =
     st\<lparr>cache := (cache st)(env_key (environ st ''url'') :=
                   cache st (env_key (environ st ''url'')) + 1),
        sent := sent st @ [(url, payload, effective_headers hdrs)]\<rparr>"

definition post_request ::
  "pylib \<Rightarrow> clock \<Rightarrow> http_reply \<Rightarrow> session \<Rightarrow> string \<Rightarrow> pydict \<Rightarrow> headers option
     \<Rightarrow> (py_exn + post_result) \<times> pydict \<times> session" where
  \<comment> \<open>The result, the payload dict as the call leaves it (it is updated in place), and
      the state. \<open>Inl e\<close> is an exception that leaves the function: the store lookup and
      \<open>urlparse\<close> stand before the \<open>try\<close>.\<close>
  "post_request L clk reply st url payload hdrs =
     (case resolve_answer st payload of
        Inl e \<Rightarrow> (Inl e, payload, st)
      | Inr p1 \<Rightarrow>
          (let st1 = load_secret st; p2 = inject_secret st1 p1
           in case urlparse L url of
                None \<Rightarrow> (Inl ValueError, p2, st1)
              | Some (scheme, netloc) \<Rightarrow>
                  if scheme = [] \<or> netloc = [] then (Inr (Invalid_url url), p2, st1)
                  else if blocked url then (Inr (Placeholder_url url), p2, st1)
                  else
                    (let cur_url = environ st1 ''url'';
                         st2 = attempt st1 url p2 hdrs
                     in case reply of
                          Connection_failed \<Rightarrow> (Inr (Unexpected RequestException), p2, st2)
                        | Http_failure status err_data \<Rightarrow>
                            (Inr (Http_error err_data status), p2, st2)
                        | Ok_text text \<Rightarrow> (Inr (Non_json text), p2, st2)
                        | Ok_json body \<Rightarrow>
                            (case handle_response L clk st2 cur_url body of
                               (r, st3) \<Rightarrow> (Inr r, p2, st3)))))"


definition accepted :: "pylib \<Rightarrow> session \<Rightarrow> string \<Rightarrow> pydict \<Rightarrow> bool" where
  \<comment> \<open>The call reaches the \<open>try\<close>: the answer needs no lookup or its key is stored, and
      the URL has a scheme and a host and no blocked fragment.\<close>
  "accepted L st url payload =
     (\<not> isl (resolve_answer st payload) \<and>
      (case urlparse L url of
         None \<Rightarrow> False
       | Some (scheme, netloc) \<Rightarrow> scheme \<noteq> [] \<and> netloc \<noteq> [] \<and> \<not> blocked url))"


section \<open>The control loop's decision turn (\<open>agent.py\<close>, \<open>agent_node\<close>)\<close>

text \<open>
  A turn of the conversation, as far as \<open>agent_node\<close> reads it: the type of the message,
  its content as text, the tool a tool result comes from, and the tool calls an assistant
  turn requests. A character of a text below \<open>0x80\<close> is the ASCII character; one from
  \<open>0x80\<close> on stands for a character outside ASCII. Three library functions are
  parameters: \<open>trim_messages\<close> (with the arguments of lines 133-140 applied), the text
  \<open>str\<close> gives for a list of messages, and, for the characters outside ASCII, whether the
  class \<open>\w\<close> of the module \<open>re\<close> holds them (it is the Unicode class on a \<open>str\<close>).
\<close>

datatype msg_type = System | Human | AI | Tool

record tool_call =
  call_name :: string
  call_args :: pydict

record message =
  mtype :: msg_type
  content :: string
  tool_name :: "string option"
  tool_calls :: "tool_call list"

record framework =
  trim_messages :: "message list \<Rightarrow> message list"
  str_messages :: "message list \<Rightarrow> string"
  unicode_word :: "char \<Rightarrow> bool"

definition human_message :: "string \<Rightarrow> message" where
  "human_message text = \<lparr>mtype = Human, content = text, tool_name = None, tool_calls = []\<rparr>"

definition nl :: string where
  \<open>nl = [CHR 0x0A]\<close>

definition audio_step :: string where
  \<comment> \<open>Line 73.\<close>
  \<open>audio_step = ''  2. Use transcribe_audio("task.opus")''\<close>

definition ocr_step :: string where
  \<comment> \<open>Line 84.\<close>
  \<open>ocr_step = ''       ocr_image_tool(image_path="task_image.png")''\<close>

definition SYSTEM_PROMPT :: "string \<Rightarrow> string \<Rightarrow> string" where
  \<comment> \<open>Lines 55-99, piece by piece; the two arguments are what the f-string prints for
      \<open>EMAIL\<close> and \<open>SECRET\<close>.\<close>
  \<open>SYSTEM_PROMPT email secret = concat
     [nl,
      ''You are an autonomous quiz-solving agent.'', nl,
      ''Your email: '', email, nl,
      ''Your secret: '', secret, nl,
      nl,
      ''GENERAL BEHAVIOUR'', nl,
      ''-----------------'', nl,
      ''- Always start by calling get_rendered_html(url) on the current quiz URL.'', nl,
      ''- Use ONLY the tools provided.'', nl,
      ''- Never invent or guess new URLs. Only use:'', nl,
      ''  * URLs you see in the HTML (links, script src, img src, etc.)'', nl,
      ''  * URLs returned by the server responses (e.g. "url" field)'', nl,
      ''- Perform all non-trivial calculations using run_code, not in your head.'', nl,
      nl,
      ''AUDIO WORKFLOW'', nl,
      ''--------------'', nl,
      ''If the HTML (or instructions) include an <audio> tag or an audio URL:'', nl,
      ''  1. Use download_file(audio_url, "task.opus")'', nl,
      audio_step, nl,
      ''  3. The transcription will contain instructions. Follow them exactly.'', nl,
      nl,
      ''IMAGE / OCR WORKFLOW'', nl,
      ''--------------------'', nl,
      ''If get_rendered_html(url) returns any image URLs in the "images" list,'', nl,
      ''OR the page clearly shows a puzzle image:'', nl,
      nl,
      ''  1. For each relevant image URL, call:'', nl,
      ''       download_file(image_url, "task_image.png")'', nl,
      ''  2. Then call:'', nl,
      ocr_step, nl,
      ''  3. Read the extracted text carefully. It may contain:'', nl,
      ''       - The puzzle statement'', nl,
      ''       - Hidden instructions'', nl,
      ''       - Formulas or constraints'', nl,
      ''  4. Follow those instructions using the other tools.'', nl,
      nl,
      ''You MUST NOT ignore images. Any time an image is downloaded, it should be OCR'', [CHR 0x27], ''d.'', nl,
      nl,
      ''ANSWER SUBMISSION'', nl,
      ''-----------------'', nl,
      ''To submit an answer, you must call post_request with a payload that includes:'', nl,
      ''  - "answer": the computed answer (string or number)'', nl,
      ''  - "email": '', email, nl,
      ''  - "url": the quiz page URL you are answering for'', nl]\<close>

subsection \<open>Time handling (lines 117-131)\<close>

definition timed_out :: "pylib \<Rightarrow> real \<Rightarrow> real \<Rightarrow> string \<Rightarrow> py_exn + bool" where
  \<comment> \<open>The condition of line 126, evaluated left to right: \<open>float(offset)\<close> is reached only
      when \<open>diff < 180\<close> and the offset is not \<open>"0"\<close>, and raises on a malformed string.\<close>
  "timed_out L cur_time prev_time offset =
     (if cur_time - prev_time \<ge> 180 then Inr True
      else if offset = ''0'' then Inr False
      else (case float_str L offset of
              None \<Rightarrow> Inl ValueError
            | Some t \<Rightarrow> Inr (cur_time - t > 90)))"

definition fail_msg :: message where
  "fail_msg = human_message
     ''You have exceeded the time limit. Submit a WRONG answer immediately to proceed.''"

subsection \<open>Forced tool execution (lines 146-190)\<close>

definition whitespace :: string where
  \<comment> \<open>The characters below \<open>0x100\<close> that \<open>str.strip\<close> removes.\<close>
  "whitespace =
     [CHR 0x09, CHR 0x0A, CHR 0x0B, CHR 0x0C, CHR 0x0D, CHR 0x1C, CHR 0x1D, CHR 0x1E, CHR 0x1F,
      CHR '' '', CHR 0x85, CHR 0xA0]"

definition ascii_name_chars :: string where
  \<comment> \<open>The ASCII characters of the class \<open>[\w-]\<close>.\<close>
  "ascii_name_chars = ''abcdefghijklmnopqrstuvwxyzABCDEFGHIJKLMNOPQRSTUVWXYZ0123456789_-''"

definition name_char :: "framework \<Rightarrow> char \<Rightarrow> bool" where
  \<comment> \<open>The class \<open>[\w-]\<close>: its ASCII characters, and outside ASCII (the top bit of the
      character is set) what the library's \<open>\w\<close> holds; no word character is white space.\<close>
  "name_char F c =
     (c \<in> set ascii_name_chars \<or> (digit7 c \<and> c \<notin> set whitespace \<and> unicode_word F c))"

definition file_at :: "framework \<Rightarrow> string list \<Rightarrow> string \<Rightarrow> string option" where
  \<comment> \<open>\<open>([\w-]+\.(e1|e2|...))\<close> matched at the head of the text. The run of name characters
      is taken whole: a shorter one would be followed by a name character, not by the dot.
      The alternatives are tried in order.\<close>
  "file_at F exts s =
     (let run = takeWhile (name_char F) s;
          rest = dropWhile (name_char F) s
      in if run = [] then None
         else (case rest of
                 [] \<Rightarrow> None
               | d # r \<Rightarrow>
                   if d = CHR ''.''
                   then map_option (\<lambda>e. run @ ''.'' @ e) (find (\<lambda>e. starts_with e r) exts)
                   else None))"

fun skip_to_file :: "framework \<Rightarrow> string list \<Rightarrow> string \<Rightarrow> string option" where
  \<comment> \<open>\<open>.*?\<close> followed by the group: the fewest characters skipped, none of them a newline.\<close>
  "skip_to_file F exts [] = None"
| "skip_to_file F exts (c # cs) =
     (case file_at F exts (c # cs) of
        Some f \<Rightarrow> Some f
      | None \<Rightarrow> if c = CHR 0x0A then None else skip_to_file F exts cs)"

definition marker :: string where
  "marker = ''Downloaded file to:''"

fun search_download :: "framework \<Rightarrow> string list \<Rightarrow> string \<Rightarrow> string option" where
  \<comment> \<open>\<open>re.search(r'Downloaded file to:.*?([\w-]+\.(e1|e2|...))', content)\<close>, group 1 of the
      leftmost match.\<close>
  "search_download F exts [] = None"
| "search_download F exts (c # cs) =
     (if starts_with marker (c # cs)
      then (case skip_to_file F exts (drop (length marker) (c # cs)) of
              Some f \<Rightarrow> Some f
            | None \<Rightarrow> search_download F exts cs)
      else search_download F exts cs)"

definition audio_exts :: "string list" where
  "audio_exts = [''opus'', ''mp3'', ''wav'', ''ogg'']"

definition image_exts :: "string list" where
  "image_exts = [''png'', ''jpg'', ''jpeg'', ''bmp'']"

definition strip :: "string \<Rightarrow> string" where
  "strip s =
     rev (dropWhile (\<lambda>c. c \<in> set whitespace) (rev (dropWhile (\<lambda>c. c \<in> set whitespace) s)))"

fun scan_downloads ::
  "framework \<Rightarrow> message list \<Rightarrow> string option \<times> string option
     \<Rightarrow> string option \<times> string option" where
  \<comment> \<open>The loop of lines 158-168 over the window, on \<open>(downloaded_audio, downloaded_image)\<close>.\<close>
  "scan_downloads F [] acc = acc"
| "scan_downloads F (msg # msgs) (downloaded_audio, downloaded_image) =
     scan_downloads F msgs
       (case search_download F audio_exts (content msg) of
          Some f \<Rightarrow> Some (strip f) | None \<Rightarrow> downloaded_audio,
        case search_download F image_exts (content msg) of
          Some f \<Rightarrow> Some (strip f) | None \<Rightarrow> downloaded_image)"

definition basename :: "string \<Rightarrow> string" where
  \<comment> \<open>\<open>os.path.basename\<close>: what follows the last slash.\<close>
  "basename p = rev (takeWhile (\<lambda>c. c \<noteq> CHR ''/'') (rev p))"

definition recent_messages :: "message list \<Rightarrow> message list" where
  \<comment> \<open>\<open>trimmed_messages[-15:]\<close>\<close>
  "recent_messages ms = drop (length ms - 15) ms"

datatype tool_request = Transcribe_audio string | Ocr_image string

definition pending :: "string option \<Rightarrow> bool \<Rightarrow> bool" where
  \<comment> \<open>\<open>downloaded and not processed\<close>: a name was found, it is not empty, and the tool's
      name was not seen.\<close>
  "pending downloaded processed =
     (case downloaded of None \<Rightarrow> False | Some f \<Rightarrow> f \<noteq> [] \<and> \<not> processed)"

definition downloaded_audio :: "framework \<Rightarrow> message list \<Rightarrow> string option" where
  "downloaded_audio F recent = fst (scan_downloads F recent (None, None))"

definition downloaded_image :: "framework \<Rightarrow> message list \<Rightarrow> string option" where
  "downloaded_image F recent = snd (scan_downloads F recent (None, None))"

definition results_of :: "string \<Rightarrow> message list \<Rightarrow> message list" where
  \<comment> \<open>The tool results of the tool \<open>n\<close> among the messages (not a function of the
      program: it states what a window holds).\<close>
  "results_of n ms = filter (\<lambda>m. mtype m = Tool \<and> tool_name m = Some n) ms"

definition shows_tool_names :: "framework \<Rightarrow> bool" where
  \<comment> \<open>A property of \<open>str\<close> on messages: the text of a list of messages holds the tool
      name of each tool result in it (the framework prints the field \<open>name\<close>).\<close>
  "shows_tool_names F =
     (\<forall>ms n. results_of n ms \<noteq> [] \<longrightarrow> substring n (str_messages F ms))"

definition transcribed_audio :: "framework \<Rightarrow> message list \<Rightarrow> bool" where
  \<comment> \<open>\<open>"transcribe_audio" in msg_str\<close>, with \<open>msg_str = str(recent_messages)\<close>\<close>
  "transcribed_audio F recent = substring ''transcribe_audio'' (str_messages F recent)"

definition ocr_run :: "framework \<Rightarrow> message list \<Rightarrow> bool" where
  \<comment> \<open>\<open>"ocr_image_tool" in msg_str\<close>\<close>
  "ocr_run F recent = substring ''ocr_image_tool'' (str_messages F recent)"

definition image_argument :: "string \<Rightarrow> string" where
  \<comment> \<open>Lines 182-183.\<close>
  "image_argument f = (if substring ''LLMFiles'' f then basename f else f)"

definition next_forced_call :: "framework \<Rightarrow> message list \<Rightarrow> tool_request option" where
  \<comment> \<open>Lines 147-190 on the trimmed messages: the tool call that is forced, if any. The
      call identifier (a fresh \<open>uuid\<close>) is left out.\<close>
  "next_forced_call F trimmed_messages =
     (let recent = recent_messages trimmed_messages
      in if pending (downloaded_audio F recent) (transcribed_audio F recent)
         then Some (Transcribe_audio (the (downloaded_audio F recent)))
         else if pending (downloaded_image F recent) (ocr_run F recent)
         then Some (Ocr_image (image_argument (the (downloaded_image F recent))))
         else None)"

subsection \<open>\<open>agent_node\<close>\<close>

text \<open>
  What the turn does: the timeout escape (the model is invoked on the untrimmed history
  plus the instruction to fail), a forced tool call (the model is not invoked), or the
  model invoked on the trimmed history.
\<close>

datatype action =
    Timeout_escape "message list"
  | Forced tool_request
  | Invoke_llm "message list"

definition grounded :: "framework \<Rightarrow> session \<Rightarrow> message list \<Rightarrow> message list" where
  \<comment> \<open>Lines 133-144.\<close>
  "grounded F st messages =
     (let trimmed_messages = trim_messages F messages
      in if list_ex (\<lambda>msg. mtype msg = Human) trimmed_messages then trimmed_messages
         else trimmed_messages @
           [human_message (''Context cleared. Continue processing URL: '' @
              (case environ st ''url'' of None \<Rightarrow> ''Unknown URL'' | Some u \<Rightarrow> u))])"

definition normal_turn :: "framework \<Rightarrow> session \<Rightarrow> message list \<Rightarrow> action" where
  \<comment> \<open>Lines 133-194: normal decision-making.\<close>
  "normal_turn F st messages =
     (case next_forced_call F (grounded F st messages) of
        Some call \<Rightarrow> Forced call
      | None \<Rightarrow> Invoke_llm (grounded F st messages))"

definition getenv_offset :: "session \<Rightarrow> string" where
  \<comment> \<open>\<open>os.getenv("offset", "0")\<close>\<close>
  "getenv_offset st = (case environ st ''offset'' of None \<Rightarrow> ''0'' | Some v \<Rightarrow> v)"

definition agent_node ::
  "pylib \<Rightarrow> framework \<Rightarrow> session \<Rightarrow> real \<Rightarrow> message list \<Rightarrow> py_exn + action" where
  \<comment> \<open>\<open>cur_time\<close> is the reading of \<open>time.time()\<close> at line 118.\<close>
  "agent_node L F st cur_time messages =
     (let cur_url = environ st ''url'';
          offset = getenv_offset st
      in case url_time st (env_key cur_url) of
           None \<Rightarrow> Inr (normal_turn F st messages)
         | Some prev_time \<Rightarrow>
             (case timed_out L cur_time prev_time offset of
                Inl e \<Rightarrow> Inl e
              | Inr t \<Rightarrow>
                  if t then Inr (Timeout_escape (messages @ [fail_msg]))
                  else Inr (normal_turn F st messages)))"


section \<open>A reference instance of the library functions\<close>

text \<open>
  To run the model on examples the library parameters need values. This instance reads
  plain decimal literals (\<open>12\<close>, \<open>-3.5\<close>) for \<open>float\<close> and \<open>int\<close> and refuses every
  other string, and reads CSV text that has no quoting and no carriage return: one row
  per line, cells split at commas, an empty line giving the empty row. On such inputs it
  returns what CPython returns.
\<close>

definition digit_val :: "char \<Rightarrow> nat option" where
  "digit_val c = map_of (zip ''0123456789'' [0, 1, 2, 3, 4, 5, 6, 7, 8, 9]) c"

fun digits_val :: "string \<Rightarrow> nat \<Rightarrow> nat option" where
  "digits_val [] acc = Some acc"
| "digits_val (c # cs) acc =
     (case digit_val c of None \<Rightarrow> None | Some d \<Rightarrow> digits_val cs (10 * acc + d))"

definition unsigned_decimal :: "string \<Rightarrow> real option" where
  "unsigned_decimal s =
     (let ip = takeWhile (\<lambda>c. c \<noteq> CHR ''.'') s;
          fp = drop 1 (dropWhile (\<lambda>c. c \<noteq> CHR ''.'') s)
      in if ip = [] \<and> fp = [] then None
         else (case (digits_val ip 0, digits_val fp 0) of
                 (Some i, Some f) \<Rightarrow> Some (real i + real f / 10 ^ length fp)
               | _ \<Rightarrow> None))"

definition decimal_float :: "string \<Rightarrow> real option" where
  "decimal_float s =
     (case s of
        [] \<Rightarrow> None
      | c # cs \<Rightarrow> if c = CHR ''-'' then map_option uminus (unsigned_decimal cs)
                 else unsigned_decimal s)"

definition decimal_int :: "string \<Rightarrow> int option" where
  "decimal_int s =
     (case s of
        [] \<Rightarrow> None
      | c # cs \<Rightarrow>
          if c = CHR ''-''
          then (if cs = [] then None else map_option (\<lambda>n. - int n) (digits_val cs 0))
          else map_option int (digits_val s 0))"

fun split_on :: "char \<Rightarrow> string \<Rightarrow> string \<Rightarrow> string list" where
  \<comment> \<open>\<open>split_on sep s cur\<close>: the pieces of \<open>cur @ s\<close> between separators found in \<open>s\<close>.\<close>
  "split_on sep [] cur = [cur]"
| "split_on sep (c # cs) cur =
     (if c = sep then cur # split_on sep cs [] else split_on sep cs (cur @ [c]))"

definition text_lines :: "string \<Rightarrow> string list" where
  "text_lines s =
     (let ls = split_on (CHR 0x0A) s [] in if last ls = [] then butlast ls else ls)"

definition plain_csv :: "string \<Rightarrow> string list list option" where
  "plain_csv s =
     Some (map (\<lambda>l. if l = [] then [] else split_on (CHR '','') l []) (text_lines s))"

definition plain_str :: "json \<Rightarrow> string" where
  "plain_str v =
     (case v of
        JNull \<Rightarrow> ''None''
      | JBool b \<Rightarrow> (if b then ''True'' else ''False'')
      | JStr s \<Rightarrow> s
      | _ \<Rightarrow> ''<value>'')"

text \<open>
  For \<open>str\<close> of a float the instance prints the decimal expansion (\<open>12.0\<close>, \<open>3.25\<close>), which
  is what CPython prints for floats below \<open>1e16\<close> with a short expansion. For \<open>urlparse\<close>
  it follows \<open>urllib.parse.urlsplit\<close> on URLs without control characters: the scheme is
  what precedes the first colon when that is a letter followed by scheme characters, the
  netloc what follows \<open>//\<close> up to the next \<open>/\<close>, \<open>?\<close> or \<open>#\<close>; a netloc with a
  bracket is refused.
\<close>

definition digit_char :: "nat \<Rightarrow> char" where
  "digit_char n = ''0123456789'' ! n"

fun nat_digits :: "nat \<Rightarrow> string" where
  "nat_digits n =
     (if n < 10 then [digit_char n] else nat_digits (n div 10) @ [digit_char (n mod 10)])"

fun frac_digits :: "nat \<Rightarrow> real \<Rightarrow> string" where
  "frac_digits 0 r = []"
| "frac_digits (Suc k) r =
     (if r = 0 then []
      else digit_char (nat \<lfloor>r * 10\<rfloor>) # frac_digits k (r * 10 - of_int \<lfloor>r * 10\<rfloor>))"

definition plain_str_float :: "real \<Rightarrow> string" where
  "plain_str_float r =
     (let a = \<bar>r\<bar>; f = frac_digits 17 (a - of_int \<lfloor>a\<rfloor>)
      in (if r < 0 then ''-'' else []) @ nat_digits (nat \<lfloor>a\<rfloor>) @ ''.'' @
         (if f = [] then ''0'' else f))"

definition scheme_chars :: string where
  "scheme_chars = ''abcdefghijklmnopqrstuvwxyzABCDEFGHIJKLMNOPQRSTUVWXYZ0123456789+-.''"

definition letters :: string where
  "letters = ''abcdefghijklmnopqrstuvwxyzABCDEFGHIJKLMNOPQRSTUVWXYZ''"

definition plain_urlparse :: "string \<Rightarrow> (string \<times> string) option" where
  "plain_urlparse url =
     (let pre = takeWhile (\<lambda>c. c \<noteq> CHR '':'') url;
          is_scheme = (length pre < length url \<and>
                       (case pre of [] \<Rightarrow> False | c # _ \<Rightarrow> c \<in> set letters) \<and>
                       list_all (\<lambda>c. c \<in> set scheme_chars) pre);
          scheme = (if is_scheme then lower pre else []);
          rest = (if is_scheme then drop (length pre + 1) url else url);
          netloc = (if take 2 rest = ''//''
                    then takeWhile (\<lambda>c. c \<notin> set ''/?#'') (drop 2 rest) else [])
      in if CHR ''['' \<in> set netloc \<or> CHR '']'' \<in> set netloc then None
         else Some (scheme, netloc))"


definition py0 :: pylib where
  "py0 = \<lparr>float_str = decimal_float, int_str = decimal_int, str_json = plain_str,
           csv_reader = plain_csv, str_float = plain_str_float, urlparse = plain_urlparse\<rparr>"

subsection \<open>A reference instance of the framework functions\<close>

text \<open>
  A history within the token budget is not trimmed. Characters outside ASCII are read as
  Latin-1. The text of a list of messages shows,
  for each message, the name of its class, its content, the tool name of a tool result and
  the names of the tools an assistant turn calls, in the layout of the framework's
  \<open>repr\<close> (without its escapes).
\<close>

definition class_name :: "msg_type \<Rightarrow> string" where
  "class_name t =
     (case t of System \<Rightarrow> ''SystemMessage'' | Human \<Rightarrow> ''HumanMessage''
      | AI \<Rightarrow> ''AIMessage'' | Tool \<Rightarrow> ''ToolMessage'')"

definition quoted :: "string \<Rightarrow> string" where
  "quoted s = [CHR 0x27] @ s @ [CHR 0x27]"

fun join :: "string \<Rightarrow> string list \<Rightarrow> string" where
  "join sep [] = []"
| "join sep [x] = x"
| "join sep (x # y # ys) = x @ sep @ join sep (y # ys)"

definition repr_call :: "tool_call \<Rightarrow> string" where
  "repr_call c = ''{'' @ quoted ''name'' @ '': '' @ quoted (call_name c) @ ''}''"

definition repr_message :: "message \<Rightarrow> string" where
  "repr_message m =
     class_name (mtype m) @ ''(content='' @ quoted (content m) @
     (case tool_name m of None \<Rightarrow> [] | Some n \<Rightarrow> '', name='' @ quoted n) @
     (if tool_calls m = [] then []
      else '', tool_calls=['' @ join '', '' (map repr_call (tool_calls m)) @ '']'') @
     '')''"

definition plain_repr :: "message list \<Rightarrow> string" where
  "plain_repr ms = ''['' @ join '', '' (map repr_message ms) @ '']''"

definition latin1_word :: "char \<Rightarrow> bool" where
  \<comment> \<open>\<open>\w\<close> on the characters \<open>0x80\<close> to \<open>0xFF\<close>, read as Latin-1: the letters, and the
      digits and fractions among the signs.\<close>
  "latin1_word c =
     (c \<in> set [CHR 0xAA, CHR 0xB2, CHR 0xB3, CHR 0xB5, CHR 0xB9, CHR 0xBA, CHR 0xBC, CHR 0xBD,
               CHR 0xBE] \<or>
      (digit7 c \<and> digit6 c \<and> c \<noteq> CHR 0xD7 \<and> c \<noteq> CHR 0xF7))"

definition fw0 :: framework where
  "fw0 = \<lparr>trim_messages = (\<lambda>ms. ms), str_messages = plain_repr,
           unicode_word = latin1_word\<rparr>"


section \<open>Example inputs\<close>

text \<open>The example of the specification: three rows, sum of column 1 where column 0 > 1.\<close>

definition example_csv :: string where
  "example_csv = ''1,100'' @ [CHR 0x0A] @ ''2,40'' @ [CHR 0x0A] @ ''x,bad''"

definition example_ops :: pydict where
  "example_ops =
     [(''operation'', JStr ''sum''), (''column'', JNum 1),
      (''filters'', JArr [JObj [(''column'', JNum 0), (''op'', JStr ''>''), (''value'', JNum 1)]])]"

text \<open>The same rows with a filter no row passes, and the mean asked for.\<close>

definition example_avg_ops :: pydict where
  "example_avg_ops =
     [(''operation'', JStr ''average''), (''column'', JNum 1),
      (''filters'', JArr [JObj [(''column'', JNum 0), (''op'', JStr ''>''), (''value'', JNum 5)]])]"


text \<open>
  A session on the task \<open>https://quiz.test/q1\<close>, started at time 1100, with a retry in
  flight since 1050 and one attempt made; and the same session after four attempts.
\<close>

definition q1 :: string where
  "q1 = ''https://quiz.test/q1''"

definition q2 :: string where
  "q2 = ''https://quiz.test/q2''"

definition session1 :: session where
  "session1 =
     \<lparr>environ = [''url'' \<mapsto> q1, ''offset'' \<mapsto> ''1050'', ''SECRET'' \<mapsto> ''s3cret''],
      url_time = [KStr q1 \<mapsto> 1100],
      cache = (\<lambda>k. 0)(KStr q1 := 1),
      SECRET = None,
      BASE64_STORE = Map.empty,
      sent = []\<rparr>"

definition session4 :: session where
  "session4 = session1\<lparr>cache := (\<lambda>k. 0)(KStr q1 := 4)\<rparr>"

text \<open>A session whose current task has no start time recorded, long after the last retry.\<close>

definition session_unseen :: session where
  "session_unseen = session1\<lparr>url_time := Map.empty\<rparr>"

definition clock1 :: clock where
  "clock1 =
     \<lparr>now_delay = 1150, now_delay_default = 1150, now_touch = 1150, now_cur = 1150,
      now_prev_default = 1150, now_offset_default = 1150\<rparr>"

definition submit_url :: string where
  "submit_url = ''https://quiz.test/submit''"

definition answer_payload :: pydict where
  "answer_payload = [(''answer'', JNum 42), (''email'', JStr ''a@b.org''), (''url'', JStr q1)]"

text \<open>Responses of the grading server: wrong with a next task, and the last one.\<close>

definition wrong_reply :: pydict where
  "wrong_reply = [(''correct'', JBool False), (''url'', JStr q2), (''reason'', JStr ''no'')]"

definition final_reply :: pydict where
  "final_reply = [(''correct'', JBool True)]"

text \<open>
  A response whose \<open>url\<close> field is present and empty, a payload whose answer names a key
  that is not in the store, and a URL with an unclosed bracket, which \<open>urlparse\<close> rejects
  with \<open>ValueError\<close> (Invalid IPv6 URL).
\<close>

definition empty_url_reply :: pydict where
  "empty_url_reply = [(''correct'', JBool True), (''url'', JStr [])]"

definition unstored_payload :: pydict where
  "unstored_payload = [(''answer'', JStr ''BASE64_KEY:k1''), (''email'', JStr ''a@b.org'')]"

definition bracket_url :: string where
  "bracket_url = ''https://[example.com/x''"

text \<open>
  Windows of the conversation. \<open>download_result f\<close> is the tool result of \<open>download_file\<close>
  for the file \<open>f\<close>. \<open>first_window\<close> is the history of a session's first turns: the system
  prompt, the task URL, the request to download an audio file and its result.
  \<open>later_window\<close> holds the transcription of an earlier file \<open>a.opus\<close> and then the
  download of \<open>x.opus\<close>. \<open>both_window\<close> holds the downloads of an audio file and an image.
  \<open>mixed_window\<close> holds the transcription of \<open>a.opus\<close> and then the downloads of
  \<open>x.opus\<close> and of \<open>pic.png\<close>.
\<close>

definition system_message :: "string \<Rightarrow> message" where
  "system_message text = \<lparr>mtype = System, content = text, tool_name = None, tool_calls = []\<rparr>"

definition tool_result :: "string \<Rightarrow> string \<Rightarrow> message" where
  "tool_result tool text = \<lparr>mtype = Tool, content = text, tool_name = Some tool, tool_calls = []\<rparr>"

definition tool_request :: "string \<Rightarrow> pydict \<Rightarrow> message" where
  "tool_request tool args =
     \<lparr>mtype = AI, content = [], tool_name = None,
      tool_calls = [\<lparr>call_name = tool, call_args = args\<rparr>]\<rparr>"

definition download_result :: "string \<Rightarrow> message" where
  "download_result f = tool_result ''download_file'' (''Downloaded file to: LLMFiles/'' @ f)"

definition first_window :: "message list" where
  "first_window =
     [system_message (SYSTEM_PROMPT ''a@b.org'' ''s3cret''),
      human_message q1,
      tool_request ''download_file'' [(''url'', JStr ''https://quiz.test/x.opus''), (''filename'', JStr ''x.opus'')],
      download_result ''x.opus'']"

definition later_window :: "message list" where
  "later_window =
     [human_message q1,
      download_result ''a.opus'',
      tool_request ''transcribe_audio'' [(''file_path'', JStr ''a.opus'')],
      tool_result ''transcribe_audio'' ''add the values of the second column'',
      tool_request ''download_file'' [(''url'', JStr ''https://quiz.test/x.opus''), (''filename'', JStr ''x.opus'')],
      download_result ''x.opus'']"

definition both_window :: "message list" where
  "both_window =
     [human_message q1,
      tool_request ''download_file'' [(''url'', JStr ''https://quiz.test/x.opus''), (''filename'', JStr ''x.opus'')],
      download_result ''x.opus'',
      tool_request ''download_file'' [(''url'', JStr ''https://quiz.test/pic.png''), (''filename'', JStr ''pic.png'')],
      download_result ''pic.png'']"

definition mixed_window :: "message list" where
  "mixed_window =
     [human_message q1,
      download_result ''a.opus'',
      tool_request ''transcribe_audio'' [(''file_path'', JStr ''a.opus'')],
      tool_result ''transcribe_audio'' ''add the values of the second column'',
      download_result ''x.opus'',
      download_result ''pic.png'']"


section \<open>Verification: the tabular executor\<close>

lemma scan_rows_map_filter:
  "scan_rows L c fs rows (vals, n) =
     (vals @ List.map_filter (row_value L c fs) rows,
      n + length (List.map_filter (row_value L c fs) rows))"
  by (induction rows arbitrary: vals n) (simp_all split: option.split)

lemma scan_rows_counts:
  "scan_rows L c fs rows ([], 0) = (vals, n) \<Longrightarrow> n = length vals"
  by (auto simp: scan_rows_map_filter)

lemma map_filter_none:
  "\<forall>x\<in>set xs. f x = None \<Longrightarrow> List.map_filter f xs = []"
  by (induction xs) simp_all

lemma py_max_nonempty: "vals \<noteq> [] \<Longrightarrow> \<exists>r. py_max vals = Inr r"
  by (cases vals) simp_all

lemma py_min_nonempty: "vals \<noteq> [] \<Longrightarrow> \<exists>r. py_min vals = Inr r"
  by (cases vals) simp_all

lemma aggregate_returns: "\<exists>r. aggregate op_name vals = Inr r"
  using py_max_nonempty [of vals] py_min_nonempty [of vals]
  by (auto simp: aggregate_def py_truediv_def)

lemma aggregate_empty: "aggregate op_name [] = Inr 0"
  by (simp add: aggregate_def)

lemma process_rows_returns:
  "\<exists>r. process_rows L op_name c fs rows = Inr r \<and>
       rows_matched r = length (List.map_filter (row_value L c fs) rows)"
proof -
  obtain r where "aggregate op_name (List.map_filter (row_value L c fs) rows) = Inr r"
    using aggregate_returns by blast
  then show ?thesis
    by (simp add: process_rows_def scan_rows_map_filter)
qed

lemma process_csv_raises_only:
  "process_csv L csv_text operations = Inl e \<Longrightarrow>
     py_int L (dict_get operations ''column'' (JNum 0)) = Inl e \<or>
     (e = CsvError \<and> csv_reader L csv_text = None)"
proof (cases "py_int L (dict_get operations ''column'' (JNum 0))")
  case (Inl e')
  assume "process_csv L csv_text operations = Inl e"
  with Inl show ?thesis by (simp add: process_csv_def)
next
  case (Inr c)
  assume p: "process_csv L csv_text operations = Inl e"
  show ?thesis
  proof (cases "csv_reader L csv_text")
    case None
    with Inr p show ?thesis by (simp add: process_csv_def)
  next
    case (Some rows)
    obtain r where "process_rows L
        (lower (py_str L (dict_get operations ''operation'' (JStr ''sum''))))
        c (filters_of operations) rows = Inr r"
      using process_rows_returns by blast
    with Inr Some p show ?thesis by (simp add: process_csv_def)
  qed
qed

lemma py_int_exn: "py_int L v = Inl e \<Longrightarrow> e = TypeError \<or> e = ValueError"
  by (auto simp: py_int_def split: json.splits option.splits)

text \<open>
  Claim C8. When no row passes (every row is skipped by the loop), \<open>process_csv\<close> returns
  result 0 and rows_matched 0 whatever the operation name is, the mean included; and on no
  input at all does it leave with a division by zero. The first conjunct has no hypothesis;
  the second needs the column to convert and the reader to deliver the rows, since only
  then is there a set of rows to filter.
\<close>

theorem process_csv_zero_rows:
  "process_csv L csv_text operations \<noteq> Inl ZeroDivisionError \<and>
   (py_int L (dict_get operations ''column'' (JNum 0)) = Inr col_idx \<longrightarrow>
    csv_reader L csv_text = Some rows \<longrightarrow>
    (\<forall>row\<in>set rows. row_value L col_idx (filters_of operations) row = None) \<longrightarrow>
    process_csv L csv_text operations =
      Inr \<lparr>result = 0, rows_matched = 0,
           operation = lower (py_str L (dict_get operations ''operation'' (JStr ''sum''))),
           column = col_idx, filters = filters_of operations\<rparr>)"
proof (intro conjI impI)
  show "process_csv L csv_text operations \<noteq> Inl ZeroDivisionError"
    using process_csv_raises_only [of L csv_text operations ZeroDivisionError]
      py_int_exn [of L _ ZeroDivisionError]
    by auto
next
  assume c: "py_int L (dict_get operations ''column'' (JNum 0)) = Inr col_idx"
    and r: "csv_reader L csv_text = Some rows"
    and z: "\<forall>row\<in>set rows. row_value L col_idx (filters_of operations) row = None"
  from z have "List.map_filter (row_value L col_idx (filters_of operations)) rows = []"
    by (rule map_filter_none)
  then show "process_csv L csv_text operations =
      Inr \<lparr>result = 0, rows_matched = 0,
           operation = lower (py_str L (dict_get operations ''operation'' (JStr ''sum''))),
           column = col_idx, filters = filters_of operations\<rparr>"
    using c r
    by (simp add: process_csv_def process_rows_def scan_rows_map_filter aggregate_empty)
qed

text \<open>The rows of the example, as the reference reader delivers them.\<close>

lemma ex_rows: "csv_reader py0 example_csv = Some [[''1'',''100''],[''2'',''40''],[''x'',''bad'']]"
  by code_simp

theorem process_csv_zero_rows_witness:
  "py_int py0 (dict_get example_avg_ops ''column'' (JNum 0)) = Inr 1 \<and>
   csv_reader py0 example_csv = Some [[''1'', ''100''], [''2'', ''40''], [''x'', ''bad'']] \<and>
   row_value py0 1 (filters_of example_avg_ops) [''1'', ''100''] = None \<and>
   row_value py0 1 (filters_of example_avg_ops) [''2'', ''40''] = None \<and>
   row_value py0 1 (filters_of example_avg_ops) [''x'', ''bad''] = None \<and>
   process_csv py0 example_csv example_avg_ops =
     Inr \<lparr>result = 0, rows_matched = 0, operation = ''average'', column = 1,
          filters = filters_of example_avg_ops\<rparr>"
proof -
  have c: "py_int py0 (dict_get example_avg_ops ''column'' (JNum 0)) = Inr 1"
    by code_simp
  have r: "csv_reader py0 example_csv = Some [[''1'', ''100''], [''2'', ''40''], [''x'', ''bad'']]"
    by code_simp
  have z1: "row_value py0 1 (filters_of example_avg_ops) [''1'', ''100''] = None"
    by code_simp
  have z2: "row_value py0 1 (filters_of example_avg_ops) [''2'', ''40''] = None"
    by code_simp
  have z3: "row_value py0 1 (filters_of example_avg_ops) [''x'', ''bad''] = None"
    by code_simp
  have n: "lower (py_str py0 (dict_get example_avg_ops ''operation'' (JStr ''sum''))) = ''average''"
    by code_simp
  from process_csv_zero_rows [of py0 example_csv example_avg_ops 1
      "[[''1'', ''100''], [''2'', ''40''], [''x'', ''bad'']]"] c r z1 z2 z3 n
  show ?thesis by simp
qed

text \<open>
  Claim C7, as stated, fails. On the rows \<open>[["1","100"],["2","40"],["x","bad"]]\<close> with
  the sum of column 1 filtered by column 0 > 1, the function returns, and what it returns
  is not result 0 with rows_matched 0.
\<close>

theorem process_csv_example_counterexample:
  "\<not> isl (process_csv py0 example_csv example_ops) \<and>
   \<not> (result (projr (process_csv py0 example_csv example_ops)) = 0 \<and>
      rows_matched (projr (process_csv py0 example_csv example_ops)) = 0)"
  by code_simp

text \<open>
  Claim C7, amended. On those rows and that descriptor the result is 40 and rows_matched
  is 1: the row \<open>["1","100"]\<close> fails the filter (1 > 1 is false), the row
  \<open>["2","40"]\<close> passes it and contributes 40, and the row \<open>["x","bad"]\<close> is skipped
  because its cells are not numbers.
\<close>

theorem process_csv_example:
  "process_csv py0 example_csv example_ops =
     Inr \<lparr>result = 40, rows_matched = 1, operation = ''sum'', column = 1,
          filters = [JObj [(''column'', JNum 0), (''op'', JStr ''>''), (''value'', JNum 1)]]\<rparr>"
  by code_simp

text \<open>
  Claim C9 says that \<open>process_csv\<close> returns its five-field dict for every operations
  dict. The conversion \<open>int(operations.get("column", 0))\<close> is made outside any \<open>try\<close>:
  with \<open>"column": null\<close> the call leaves with \<open>TypeError\<close> whatever the text and the
  library do, and with \<open>"column": "price"\<close> it leaves with \<open>ValueError\<close>. (The same
  conversion of a filter's column, in \<open>_apply_filters\<close>, is inside a \<open>try\<close>.)
\<close>

theorem process_csv_column_raises:
  "process_csv L csv_text [(''operation'', JStr ''sum''), (''column'', JNull)] = Inl TypeError \<and>
   process_csv py0 example_csv [(''operation'', JStr ''sum''), (''column'', JStr ''price'')]
     = Inl ValueError"
proof
  show "process_csv L csv_text [(''operation'', JStr ''sum''), (''column'', JNull)] = Inl TypeError"
    by (simp add: process_csv_def dict_get_def py_int_def)
  show "process_csv py0 example_csv [(''operation'', JStr ''sum''), (''column'', JStr ''price'')]
     = Inl ValueError"
    by code_simp
qed

text \<open>
  What does hold of the interface: once the column converts and the reader delivers its
  rows, the function returns, and rows_matched is the number of values aggregated.
\<close>

lemma process_csv_returns:
  "py_int L (dict_get operations ''column'' (JNum 0)) = Inr col_idx \<Longrightarrow>
   csv_reader L csv_text = Some rows \<Longrightarrow>
   \<exists>r. process_csv L csv_text operations = Inr r \<and>
       rows_matched r = length (List.map_filter (row_value L col_idx (filters_of operations)) rows)"
  using process_rows_returns [of L _ col_idx "filters_of operations" rows]
  by (simp add: process_csv_def)


section \<open>Verification: the timeout check\<close>

text \<open>Normal decision-making is a forced tool call or an invocation of the model.\<close>

lemma normal_turn_not_escape: "normal_turn F st messages \<noteq> Timeout_escape ms"
  by (simp add: normal_turn_def split: option.split)

text \<open>
  Claim C1. For a task identifier with a recorded start time, the turn takes the timeout
  escape exactly when \<open>now - started_at \<ge> 180\<close>, or the offset is not the sentinel \<open>"0"\<close>
  and \<open>now - offset > 90\<close>; when neither holds it goes on to normal decision-making. The
  offset is the sentinel or a string that \<open>float\<close> reads as \<open>t\<close>, as every value the
  program stores is.
\<close>

theorem timeout_check:
  assumes "url_time st (env_key (environ st ''url'')) = Some prev_time"
    and "getenv_offset st = ''0'' \<or> float_str L (getenv_offset st) = Some t"
  shows "agent_node L F st cur_time messages =
     (if cur_time - prev_time \<ge> 180 \<or> (getenv_offset st \<noteq> ''0'' \<and> cur_time - t > 90)
      then Inr (Timeout_escape (messages @ [fail_msg]))
      else Inr (normal_turn F st messages))"
  using assms by (auto simp: agent_node_def timed_out_def)

text \<open>
  At time 1150 the task is 50 seconds old and its retry 100 seconds: timed out. At time
  1120 the retry is 70 seconds old: not timed out.
\<close>

theorem timeout_check_witness:
  "url_time session1 (env_key (environ session1 ''url'')) = Some 1100 \<and>
   float_str py0 (getenv_offset session1) = Some 1050 \<and>
   getenv_offset session1 \<noteq> ''0'' \<and>
   agent_node py0 fw0 session1 1150 both_window = Inr (Timeout_escape (both_window @ [fail_msg])) \<and>
   agent_node py0 fw0 session1 1120 both_window = Inr (normal_turn fw0 session1 both_window)"
proof -
  have h1: "url_time session1 (env_key (environ session1 ''url'')) = Some 1100"
    by (simp add: session1_def env_key_def)
  have o: "getenv_offset session1 = ''1050''"
    by (simp add: session1_def getenv_offset_def)
  have h2: "float_str py0 (getenv_offset session1) = Some 1050"
    unfolding o by code_simp
  have h3: "getenv_offset session1 = ''0'' \<or> float_str py0 (getenv_offset session1) = Some 1050"
    using h2 by simp
  from timeout_check [OF h1 h3, of fw0 1150 both_window]
    timeout_check [OF h1 h3, of fw0 1120 both_window] h1 h2 o
  show ?thesis by simp
qed

text \<open>
  Claim C10. When the current task identifier has no entry in \<open>url_time\<close>, the turn is
  normal decision-making, whatever the time and the offset are: it is never the timeout
  escape.
\<close>

theorem unseen_task_no_timeout:
  assumes "url_time st (env_key (environ st ''url'')) = None"
  shows "agent_node L F st cur_time messages = Inr (normal_turn F st messages) \<and>
         (\<forall>ms. agent_node L F st cur_time messages \<noteq> Inr (Timeout_escape ms))"
  using assms by (simp add: agent_node_def normal_turn_not_escape)

text \<open>A session without a start time, at a late time and with an old offset set.\<close>

theorem unseen_task_no_timeout_witness:
  "url_time session_unseen (env_key (environ session_unseen ''url'')) = None \<and>
   getenv_offset session_unseen = ''1050'' \<and>
   agent_node py0 fw0 session_unseen 999999 both_window = Inr (Forced (Transcribe_audio ''x.opus''))"
proof -
  have h: "url_time session_unseen (env_key (environ session_unseen ''url'')) = None"
    by (simp add: session_unseen_def)
  have o: "getenv_offset session_unseen = ''1050''"
    by (simp add: session_unseen_def session1_def getenv_offset_def)
  have n: "normal_turn fw0 session_unseen both_window = Forced (Transcribe_audio ''x.opus'')"
    by code_simp
  from unseen_task_no_timeout [OF h, of py0 fw0 999999 both_window] h o n
  show ?thesis by simp
qed


section \<open>Verification: the submission coordinator\<close>

text \<open>Reading the secret changes nothing but the module's \<open>SECRET\<close>.\<close>

lemma load_secret_keeps:
  "environ (load_secret st) = environ st" "url_time (load_secret st) = url_time st"
  "cache (load_secret st) = cache st" "sent (load_secret st) = sent st"
  "BASE64_STORE (load_secret st) = BASE64_STORE st"
  by (simp_all add: load_secret_def split: option.split)

text \<open>
  Claim C4, as stated, fails, in three ways. The call that refuses
  \<open>https://example.com/x\<close> has by then written the secret into the caller's payload and
  into the module's \<open>SECRET\<close> (lines 115-119 precede the validation): these are side
  effects. On the URL \<open>https://[example.com/x\<close>, which contains a blocked fragment, and on
  an answer \<open>BASE64_KEY:k1\<close> whose key is not stored, the call does not return an error
  value: \<open>urlparse\<close> (line 123) and the store lookup (line 112) raise before the \<open>try\<close>.
\<close>

theorem rejected_url_counterexample:
  "blocked ''https://example.com/x'' \<and>
   fst (snd (post_request py0 clock1 (Ok_json (JObj wrong_reply)) session1
     ''https://example.com/x'' answer_payload None)) =
     answer_payload @ [(''secret'', JStr ''s3cret'')] \<and>
   SECRET session1 = None \<and>
   SECRET (snd (snd (post_request py0 clock1 (Ok_json (JObj wrong_reply)) session1
     ''https://example.com/x'' answer_payload None))) = Some ''s3cret'' \<and>
   blocked bracket_url \<and>
   fst (post_request py0 clock1 (Ok_json (JObj wrong_reply)) session1 bracket_url
     answer_payload None) = Inl ValueError \<and>
   fst (post_request py0 clock1 (Ok_json (JObj wrong_reply)) session1
     ''https://example.com/x'' unstored_payload None) = Inl KeyError"
proof (intro conjI)
  show "blocked ''https://example.com/x''"
    by code_simp
  show "fst (snd (post_request py0 clock1 (Ok_json (JObj wrong_reply)) session1
     ''https://example.com/x'' answer_payload None)) =
     answer_payload @ [(''secret'', JStr ''s3cret'')]"
    by code_simp
  show "SECRET session1 = None"
    by (simp add: session1_def)
  show "SECRET (snd (snd (post_request py0 clock1 (Ok_json (JObj wrong_reply)) session1
     ''https://example.com/x'' answer_payload None))) = Some ''s3cret''"
    by code_simp
  show "blocked bracket_url"
    by code_simp
  show "fst (post_request py0 clock1 (Ok_json (JObj wrong_reply)) session1 bracket_url
     answer_payload None) = Inl ValueError"
    by code_simp
  show "fst (post_request py0 clock1 (Ok_json (JObj wrong_reply)) session1
     ''https://example.com/x'' unstored_payload None) = Inl KeyError"
    by code_simp
qed

text \<open>
  Claim C4, amended. A call that reaches the validation (an answer of the form
  \<open>BASE64_KEY:k\<close> names a stored key, and \<open>urlparse\<close> returns) with a target URL that has
  no scheme or no host, or contains a blocked fragment, returns an error dict
  (\<open>Invalid_url\<close> or \<open>Placeholder_url\<close>) whatever the network would answer: no request is
  sent, and the attempt counter, the timer registry and the environment are as before
  the call. The payload is the one prepared by lines 108-119 (answer resolved, secret
  injected), and the module's \<open>SECRET\<close> has been read from the environment.
\<close>

theorem rejected_url_is_refused:
  assumes "resolve_answer st payload = Inr p1"
    and "urlparse L url = Some (scheme, netloc)"
    and "scheme = [] \<or> netloc = [] \<or> blocked url"
  shows "\<exists>r. post_request L clk reply st url payload hdrs =
             (Inr r, inject_secret (load_secret st) p1, load_secret st) \<and>
           (r = Invalid_url url \<or> r = Placeholder_url url) \<and> is_error r \<and>
           sent (load_secret st) = sent st \<and> cache (load_secret st) = cache st \<and>
           url_time (load_secret st) = url_time st \<and> environ (load_secret st) = environ st"
  using assms by (auto simp: post_request_def Let_def is_error_def load_secret_keeps)

text \<open>The URL \<open>https://example.com/x\<close>: parsed, blocked, refused; the counter stays at 1.\<close>

theorem rejected_url_is_refused_witness:
  "resolve_answer session1 answer_payload = Inr answer_payload \<and>
   urlparse py0 ''https://example.com/x'' = Some (''https'', ''example.com'') \<and>
   blocked ''https://example.com/x'' \<and>
   is_error (projr (fst (post_request py0 clock1 (Ok_json (JObj wrong_reply)) session1
      ''https://example.com/x'' answer_payload None))) \<and>
   sent (snd (snd (post_request py0 clock1 (Ok_json (JObj wrong_reply)) session1
      ''https://example.com/x'' answer_payload None))) = [] \<and>
   cache (snd (snd (post_request py0 clock1 (Ok_json (JObj wrong_reply)) session1
      ''https://example.com/x'' answer_payload None))) (KStr q1) = 1"
proof -
  have h1: "resolve_answer session1 answer_payload = Inr answer_payload"
    by code_simp
  have h2: "urlparse py0 ''https://example.com/x'' = Some (''https'', ''example.com'')"
    by code_simp
  have h3: "blocked ''https://example.com/x''"
    by code_simp
  have h3': "''https'' = [] \<or> ''example.com'' = [] \<or> blocked ''https://example.com/x''"
    using h3 by simp
  from rejected_url_is_refused [OF h1 h2 h3', of clock1 "Ok_json (JObj wrong_reply)" None]
  obtain r where
    "post_request py0 clock1 (Ok_json (JObj wrong_reply)) session1
       ''https://example.com/x'' answer_payload None =
       (Inr r, inject_secret (load_secret session1) answer_payload, load_secret session1)"
    and "is_error r"
    and "sent (load_secret session1) = sent session1"
    and "cache (load_secret session1) = cache session1"
    by blast
  then show ?thesis
    using h1 h2 h3 by (simp add: session1_def)
qed

lemma accepted_cases:
  "accepted L st url payload \<longleftrightarrow>
     (\<exists>p1 scheme netloc. resolve_answer st payload = Inr p1 \<and>
        urlparse L url = Some (scheme, netloc) \<and> scheme \<noteq> [] \<and> netloc \<noteq> [] \<and> \<not> blocked url)"
  by (cases "resolve_answer st payload"; cases "urlparse L url")
     (auto simp: accepted_def)

lemma forward_not_terminate: "fst (forward st next_url data) \<noteq> Terminate b"
  by (simp add: forward_def Let_def split: json.split)

lemma handle_response_not_object:
  "(\<forall>d. body \<noteq> JObj d) \<Longrightarrow>
   handle_response L clk st cur_url body = (Unexpected AttributeError, st)"
  by (cases body) (simp_all add: handle_response_def)

lemma handle_response_terminate:
  "fst (handle_response L clk st cur_url body) = Terminate b \<longleftrightarrow>
     b = body \<and> (\<exists>data. body = JObj data \<and> \<not> truthy (dict_get data ''url'' JNull))"
  by (cases body)
     (auto simp: handle_response_def Let_def forward_not_terminate split: option.split)

text \<open>An accepted call makes its attempt and then depends on the reply alone.\<close>

lemma post_request_accepted:
  assumes "accepted L st url payload"
  shows "\<exists>p1. resolve_answer st payload = Inr p1 \<and>
     post_request L clk reply st url payload hdrs =
     (let p2 = inject_secret (load_secret st) p1; st2 = attempt (load_secret st) url p2 hdrs
      in case reply of
           Connection_failed \<Rightarrow> (Inr (Unexpected RequestException), p2, st2)
         | Http_failure status err_data \<Rightarrow> (Inr (Http_error err_data status), p2, st2)
         | Ok_text text \<Rightarrow> (Inr (Non_json text), p2, st2)
         | Ok_json body \<Rightarrow>
             (Inr (fst (handle_response L clk st2 (environ st ''url'') body)), p2,
              snd (handle_response L clk st2 (environ st ''url'') body)))"
proof -
  from assms obtain p1 scheme netloc where
    "resolve_answer st payload = Inr p1" "urlparse L url = Some (scheme, netloc)"
    "scheme \<noteq> []" "netloc \<noteq> []" "\<not> blocked url"
    unfolding accepted_cases by blast
  then show ?thesis
    by (auto simp: post_request_def Let_def load_secret_keeps
        split: http_reply.split prod.split)
qed

lemma post_request_not_accepted:
  assumes "\<not> accepted L st url payload"
  shows "fst (post_request L clk reply st url payload hdrs) \<noteq> Inr (Terminate b)"
  using assms
  by (auto simp: post_request_def Let_def accepted_def split: sum.splits option.splits)

text \<open>
  Claim C3, as stated, fails. A response whose \<open>url\<close> field is present and empty
  terminates as well, so the absence of the field is not the only signal; and a JSON body
  that is not an object (here the empty array) has no \<open>url\<close> field and yet does not
  terminate: \<open>data.get\<close> raises, and the call returns an error dict.
\<close>

theorem terminate_counterexample:
  "map_of empty_url_reply ''url'' = Some (JStr []) \<and>
   fst (post_request py0 clock1 (Ok_json (JObj empty_url_reply)) session1 submit_url
     answer_payload None) = Inr (Terminate (JObj empty_url_reply)) \<and>
   fst (post_request py0 clock1 (Ok_json (JArr [])) session1 submit_url
     answer_payload None) = Inr (Unexpected AttributeError)"
proof (intro conjI)
  show "map_of empty_url_reply ''url'' = Some (JStr [])"
    by (simp add: empty_url_reply_def)
  show "fst (post_request py0 clock1 (Ok_json (JObj empty_url_reply)) session1 submit_url
     answer_payload None) = Inr (Terminate (JObj empty_url_reply))"
    by code_simp
  show "fst (post_request py0 clock1 (Ok_json (JArr [])) session1 submit_url
     answer_payload None) = Inr (Unexpected AttributeError)"
    by code_simp
qed

text \<open>
  Claim C3, amended. A call that reaches the network and gets a JSON object whose \<open>url\<close>
  is missing or empty in Python's sense (\<open>null\<close>, \<open>""\<close>, \<open>0\<close>, \<open>false\<close>, \<open>[]\<close>, \<open>{}\<close>: the
  test is \<open>not next_url\<close>) returns \<open>Terminate\<close> with the response data. \<open>Terminate\<close> is
  returned in no other way: only by an accepted call whose reply is such an object. A
  JSON body that is not an object gives the error dict of \<open>except Exception\<close>.
\<close>

theorem terminate_only_without_url:
  "(accepted L st url payload \<longrightarrow> reply = Ok_json (JObj data) \<longrightarrow>
      (map_of data ''url'' = None \<or> \<not> truthy (dict_get data ''url'' JNull)) \<longrightarrow>
      fst (post_request L clk reply st url payload hdrs) = Inr (Terminate (JObj data))) \<and>
   (fst (post_request L clk reply st url payload hdrs) = Inr (Terminate body) \<longleftrightarrow>
      accepted L st url payload \<and> reply = Ok_json body \<and>
      (\<exists>d. body = JObj d \<and> \<not> truthy (dict_get d ''url'' JNull))) \<and>
   (accepted L st url payload \<longrightarrow> reply = Ok_json body \<longrightarrow> (\<forall>d. body \<noteq> JObj d) \<longrightarrow>
      fst (post_request L clk reply st url payload hdrs) = Inr (Unexpected AttributeError))"
proof -
  have acc: "\<exists>p2 st2. post_request L clk (Ok_json b) st url payload hdrs =
      (Inr (fst (handle_response L clk st2 (environ st ''url'') b)), p2,
       snd (handle_response L clk st2 (environ st ''url'') b))"
    if "accepted L st url payload" for b
    using post_request_accepted [OF that, of clk "Ok_json b" hdrs]
    by (auto simp: Let_def)
  have iff: "fst (post_request L clk reply st url payload hdrs) = Inr (Terminate b) \<longleftrightarrow>
      accepted L st url payload \<and> reply = Ok_json b \<and>
      (\<exists>d. b = JObj d \<and> \<not> truthy (dict_get d ''url'' JNull))" for b
  proof (cases "accepted L st url payload")
    case False
    then show ?thesis using post_request_not_accepted [of L st url payload] by auto
  next
    case True
    from post_request_accepted [OF True, of clk reply hdrs] obtain p1 where
      "post_request L clk reply st url payload hdrs =
     (let p2 = inject_secret (load_secret st) p1; st2 = attempt (load_secret st) url p2 hdrs
      in case reply of
           Connection_failed \<Rightarrow> (Inr (Unexpected RequestException), p2, st2)
         | Http_failure status err_data \<Rightarrow> (Inr (Http_error err_data status), p2, st2)
         | Ok_text text \<Rightarrow> (Inr (Non_json text), p2, st2)
         | Ok_json body \<Rightarrow>
             (Inr (fst (handle_response L clk st2 (environ st ''url'') body)), p2,
              snd (handle_response L clk st2 (environ st ''url'') body)))"
      by blast
    with True show ?thesis
      by (cases reply) (auto simp: Let_def handle_response_terminate)
  qed
  have absent: "\<not> truthy (dict_get data ''url'' JNull)" if "map_of data ''url'' = None"
    using that by (simp add: dict_get_def truthy_def)
  have first: "fst (post_request L clk reply st url payload hdrs) = Inr (Terminate (JObj data))"
    if "accepted L st url payload" "reply = Ok_json (JObj data)"
      "map_of data ''url'' = None \<or> \<not> truthy (dict_get data ''url'' JNull)"
    using that absent iff [of "JObj data"] by blast
  have third: "fst (post_request L clk reply st url payload hdrs) = Inr (Unexpected AttributeError)"
    if "accepted L st url payload" "reply = Ok_json body" "\<forall>d. body \<noteq> JObj d"
    using acc [OF that(1), of body] that(2) handle_response_not_object [OF that(3)]
    by auto
  from first iff third show ?thesis
    by blast
qed

text \<open>The last task: the server answers \<open>{"correct": true}\<close>, an object without \<open>url\<close>.\<close>

theorem terminate_only_without_url_witness:
  "accepted py0 session1 submit_url answer_payload \<and>
   map_of final_reply ''url'' = None \<and>
   fst (post_request py0 clock1 (Ok_json (JObj final_reply)) session1 submit_url
     answer_payload None) = Inr (Terminate (JObj final_reply))"
proof -
  have a: "accepted py0 session1 submit_url answer_payload"
    by code_simp
  have u: "map_of final_reply ''url'' = None"
    by (simp add: final_reply_def)
  from terminate_only_without_url
    [of py0 session1 submit_url answer_payload "Ok_json (JObj final_reply)" final_reply clock1 None]
    a u
  show ?thesis by simp
qed


lemma attempt_fields:
  "environ (attempt st url p hdrs) = environ st"
  "url_time (attempt st url p hdrs) = url_time st"
  "cache (attempt st url p hdrs) (env_key (environ st ''url'')) =
     cache st (env_key (environ st ''url'')) + 1"
  by (simp_all add: attempt_def)


text \<open>
  Below the ceiling the same reply is answered by a retry: on the second attempt the
  forwarding target is rewritten to the current task and the retry instruction attached.
\<close>

lemma retry_below_ceiling:
  "fst (post_request py0 clock1 (Ok_json (JObj wrong_reply)) session1 submit_url
     answer_payload None) =
   Inr (Continue [(''correct'', JBool False), (''url'', JStr q1), (''reason'', JStr ''no''),
                  (''message'', JStr ''Retry Again!'')])"
  by code_simp

text \<open>
  At the ceiling the retry is never taken, whatever the follow-up value is: the call
  returns the dict \<open>{"url": next_url}\<close>, or the error dict of \<open>except Exception\<close> when the
  follow-up value cannot be a key of \<open>url_time\<close> or a value of the environment.
\<close>

lemma ceiling_never_retries:
  assumes "accepted L st url payload"
    and "reply = Ok_json (JObj data)"
    and "truthy (dict_get data ''url'' JNull)"
    and "\<not> truthy (dict_get data ''correct'' JNull)"
    and "retry_limit \<le> cache st (env_key (environ st ''url''))"
  shows "fst (post_request L clk reply st url payload hdrs) =
           Inr (Continue [(''url'', dict_get data ''url'' JNull)]) \<or>
         (\<exists>e. fst (post_request L clk reply st url payload hdrs) = Inr (Unexpected e))"
proof -
  from post_request_accepted [OF assms(1), of clk reply hdrs] obtain p1 where
    p: "post_request L clk reply st url payload hdrs =
     (let p2 = inject_secret (load_secret st) p1; st2 = attempt (load_secret st) url p2 hdrs
      in case reply of
           Connection_failed \<Rightarrow> (Inr (Unexpected RequestException), p2, st2)
         | Http_failure status err_data \<Rightarrow> (Inr (Http_error err_data status), p2, st2)
         | Ok_text text \<Rightarrow> (Inr (Non_json text), p2, st2)
         | Ok_json body \<Rightarrow>
             (Inr (fst (handle_response L clk st2 (environ st ''url'') body)), p2,
              snd (handle_response L clk st2 (environ st ''url'') body)))"
    by blast
  let ?st2 = "attempt (load_secret st) url (inject_secret (load_secret st) p1) hdrs"
  have c: "retry_limit \<le> cache ?st2 (env_key (environ st ''url''))"
    using assms(5) attempt_fields(3) [of "load_secret st"]
    by (simp add: load_secret_keeps)
  from assms(3) obtain v where "map_of data ''url'' = Some v" and tv: "truthy v"
    by (auto simp: dict_get_def truthy_def split: option.splits)
  then have g: "dict_get data ''url'' JNull = v" "dict_get data ''url'' (JStr []) = v"
    by (simp_all add: dict_get_def)
  have "fst (handle_response L clk ?st2 (environ st ''url'') (JObj data)) =
          Continue [(''url'', v)] \<or>
        (\<exists>e. fst (handle_response L clk ?st2 (environ st ''url'') (JObj data)) = Unexpected e)"
    using assms(4) c tv
    by (auto simp: handle_response_def Let_def give_up_def forward_def g
        dict_get_def [of "[(''url'', v)]"] split: option.splits json.splits)
  then show ?thesis
    unfolding p by (simp add: Let_def assms(2) g)
qed

text \<open>A follow-up URL with the character NUL: the environment refuses it, nothing advances.\<close>

lemma nul_url_is_an_error:
  "fst (post_request py0 clock1
     (Ok_json (JObj [(''correct'', JBool False), (''url'', JStr (q2 @ [CHR 0x00]))]))
     session4 submit_url answer_payload None) = Inr (Unexpected ValueError) \<and>
   environ (snd (snd (post_request py0 clock1
     (Ok_json (JObj [(''correct'', JBool False), (''url'', JStr (q2 @ [CHR 0x00]))]))
     session4 submit_url answer_payload None))) ''url'' = Some q1"
  by code_simp




section \<open>Verification: the artifact gate\<close>

text \<open>The loop over the window, seen from its last message.\<close>

lemma scan_downloads_snoc:
  "scan_downloads F (ms @ [m]) (a, i) =
     (case search_download F audio_exts (content m) of
        Some f \<Rightarrow> Some (strip f) | None \<Rightarrow> fst (scan_downloads F ms (a, i)),
      case search_download F image_exts (content m) of
        Some f \<Rightarrow> Some (strip f) | None \<Rightarrow> snd (scan_downloads F ms (a, i)))"
  by (induction ms arbitrary: a i) (simp_all split: option.split)

lemma strip_id:
  assumes "s \<noteq> []" "hd s \<notin> set whitespace" "last s \<notin> set whitespace"
  shows "strip s = s"
proof -
  from assms have a: "dropWhile (\<lambda>c. c \<in> set whitespace) s = s"
    by (cases s) simp_all
  from assms have "hd (rev s) \<notin> set whitespace" "rev s \<noteq> []"
    by (simp_all add: hd_rev)
  then have b: "dropWhile (\<lambda>c. c \<in> set whitespace) (rev s) = rev s"
    by (cases "rev s") simp_all
  show ?thesis by (simp add: strip_def a b)
qed

text \<open>
  A matched name is a non-empty run of name characters, a dot and one of the extensions:
  it has no slash and no white space at its ends, so \<open>strip\<close> and \<open>basename\<close> leave it as
  it is.
\<close>

lemma name_char_plain:
  assumes "name_char F c"
  shows "c \<notin> set whitespace \<and> c \<noteq> CHR ''/''"
proof (cases "c \<in> set ascii_name_chars")
  case True
  then show ?thesis
    by (auto simp: ascii_name_chars_def whitespace_def)
next
  case False
  with assms have "digit7 c" "c \<notin> set whitespace"
    by (simp_all add: name_char_def)
  then show ?thesis by auto
qed

lemma file_at_shape:
  assumes "file_at F exts s = Some f"
  shows "\<exists>run e. f = run @ ''.'' @ e \<and> run \<noteq> [] \<and> (\<forall>c\<in>set run. name_char F c) \<and> e \<in> set exts"
proof -
  let ?run = "takeWhile (name_char F) s"
  from assms obtain e where
    e: "find (\<lambda>e. starts_with e (tl (dropWhile (name_char F) s))) exts = Some e"
    and f: "f = ?run @ ''.'' @ e" and r: "?run \<noteq> []"
    by (auto simp: file_at_def Let_def split: if_splits list.splits)
  from e have "e \<in> set exts"
    by (auto simp: find_Some_iff)
  moreover have "\<forall>c\<in>set ?run. name_char F c"
    using set_takeWhileD by fastforce
  ultimately show ?thesis using f r by blast
qed

lemma skip_to_file_shape:
  "skip_to_file F exts s = Some f \<Longrightarrow>
   \<exists>run e. f = run @ ''.'' @ e \<and> run \<noteq> [] \<and> (\<forall>c\<in>set run. name_char F c) \<and> e \<in> set exts"
proof (induction F exts s rule: skip_to_file.induct)
  case (1 F exts)
  then show ?case by simp
next
  case (2 F exts c cs)
  then show ?case
    using file_at_shape [of F exts "c # cs" f]
    by (auto split: option.splits if_splits)
qed

lemma search_download_shape:
  "search_download F exts s = Some f \<Longrightarrow>
   \<exists>run e. f = run @ ''.'' @ e \<and> run \<noteq> [] \<and> (\<forall>c\<in>set run. name_char F c) \<and> e \<in> set exts"
proof (induction F exts s rule: search_download.induct)
  case (1 F exts)
  then show ?case by simp
next
  case (2 F exts c cs)
  then show ?case
    using skip_to_file_shape [of F exts "drop (length marker) (c # cs)" f]
    by (auto split: option.splits if_splits)
qed

lemma match_clean:
  assumes "search_download F exts s = Some f" and "exts = audio_exts \<or> exts = image_exts"
  shows "strip f = f \<and> f \<noteq> [] \<and> CHR ''/'' \<notin> set f"
proof -
  from search_download_shape [OF assms(1)] obtain run e where
    f: "f = run @ ''.'' @ e" and r: "run \<noteq> []" and rs: "\<forall>c\<in>set run. name_char F c"
    and e: "e \<in> set exts"
    by blast
  from e assms(2) have el: "e \<noteq> [] \<and> last e \<notin> set whitespace \<and> CHR ''/'' \<notin> set e"
    by (auto simp: audio_exts_def image_exts_def whitespace_def)
  from r rs have "name_char F (hd run)"
    by (cases run) auto
  then have h: "hd f \<notin> set whitespace"
    using r f name_char_plain [of F "hd run"] by simp
  from el f have l: "last f \<notin> set whitespace"
    by simp
  from rs have "CHR ''/'' \<notin> set run"
    using name_char_plain [of F "CHR ''/''"] by auto
  with el f have "CHR ''/'' \<notin> set f"
    by auto
  with strip_id [of f] h l f show ?thesis
    by simp
qed

lemma downloaded_audio_snoc:
  "downloaded_audio F (r @ [m]) =
     (case search_download F audio_exts (content m) of
        Some f \<Rightarrow> Some f | None \<Rightarrow> downloaded_audio F r)"
  using match_clean [of F audio_exts "content m"]
  by (auto simp: downloaded_audio_def scan_downloads_snoc split: option.split)

lemma downloaded_image_snoc:
  "downloaded_image F (r @ [m]) =
     (case search_download F image_exts (content m) of
        Some f \<Rightarrow> Some f | None \<Rightarrow> downloaded_image F r)"
  using match_clean [of F image_exts "content m"]
  by (auto simp: downloaded_image_def scan_downloads_snoc split: option.split)

lemma downloaded_audio_marker:
  "downloaded_audio F r \<noteq> None \<longleftrightarrow>
     (\<exists>m\<in>set r. search_download F audio_exts (content m) \<noteq> None)"
proof (induction r rule: rev_induct)
  case Nil
  show ?case by (simp add: downloaded_audio_def)
next
  case (snoc m r)
  then show ?case
    by (auto simp: downloaded_audio_snoc split: option.split)
qed

lemma downloaded_image_marker:
  "downloaded_image F r \<noteq> None \<longleftrightarrow>
     (\<exists>m\<in>set r. search_download F image_exts (content m) \<noteq> None)"
proof (induction r rule: rev_induct)
  case Nil
  show ?case by (simp add: downloaded_image_def)
next
  case (snoc m r)
  then show ?case
    by (auto simp: downloaded_image_snoc split: option.split)
qed

lemma downloaded_audio_clean:
  "downloaded_audio F r = Some f \<Longrightarrow> f \<noteq> []"
proof (induction r arbitrary: f rule: rev_induct)
  case Nil
  then show ?case by (simp add: downloaded_audio_def)
next
  case (snoc m r)
  then show ?case
    using match_clean [of F audio_exts "content m"]
    by (auto simp: downloaded_audio_snoc split: option.splits)
qed

lemma downloaded_image_clean:
  "downloaded_image F r = Some f \<Longrightarrow> f \<noteq> [] \<and> image_argument f = f"
proof (induction r arbitrary: f rule: rev_induct)
  case Nil
  then show ?case by (simp add: downloaded_image_def)
next
  case (snoc m r)
  have b: "basename g = g" if "CHR ''/'' \<notin> set g" for g
  proof -
    from that have "takeWhile (\<lambda>c. c \<noteq> CHR ''/'') (rev g) = rev g"
      by (auto simp: takeWhile_eq_all_conv)
    then have "rev (takeWhile (\<lambda>c. c \<noteq> CHR ''/'') (rev g)) = rev (rev g)"
      by (rule arg_cong)
    then show ?thesis by (simp only: basename_def rev_rev_ident)
  qed
  from snoc show ?case
    using match_clean [of F image_exts "content m"]
    by (auto simp: downloaded_image_snoc image_argument_def b split: option.splits)
qed

text \<open>Occurrence of a text in a concatenation, and in the text of a list of messages.\<close>

lemma starts_with_append: "starts_with p s \<Longrightarrow> starts_with p (s @ t)"
  by (induction p s rule: starts_with.induct) simp_all

lemma substring_empty: "substring [] s"
  by (cases s) simp_all

lemma substring_append_left: "substring sub s \<Longrightarrow> substring sub (s @ t)"
proof (induction s)
  case Nil
  then show ?case by (simp add: substring_empty)
next
  case (Cons c cs)
  then show ?case
    using starts_with_append [of sub "c # cs" t] by auto
qed

lemma substring_append_right: "substring sub t \<Longrightarrow> substring sub (s @ t)"
  by (induction s) simp_all

lemma substring_self: "substring s s"
proof (cases s)
  case Nil
  then show ?thesis by simp
next
  case (Cons c cs)
  have "starts_with p p" for p :: string
    by (induction p) simp_all
  with Cons show ?thesis by simp
qed

lemma substring_concat: "x \<in> set xs \<Longrightarrow> substring sub x \<Longrightarrow> substring sub (concat xs)"
  by (induction xs) (auto intro: substring_append_left substring_append_right)

lemma substring_join: "x \<in> set xs \<Longrightarrow> substring sub x \<Longrightarrow> substring sub (join sep xs)"
  by (induction sep xs rule: join.induct)
     (auto intro: substring_append_left substring_append_right)

lemma substring_repr_message:
  assumes "substring sub (content m)"
  shows "substring sub (repr_message m)"
proof -
  have "substring sub (content m @ [CHR 0x27])"
    using assms by (rule substring_append_left)
  then have q: "substring sub (quoted (content m))"
    unfolding quoted_def by (rule substring_append_right)
  show ?thesis
    unfolding repr_message_def
    by (rule substring_append_right, rule substring_append_right,
        rule substring_append_left, rule q)
qed

lemma substring_repr_tool_name:
  assumes "tool_name m = Some n"
  shows "substring n (repr_message m)"
proof -
  have "substring n (n @ [CHR 0x27])"
    using substring_self by (rule substring_append_left)
  then have "substring n (quoted n)"
    unfolding quoted_def by (rule substring_append_right)
  then have "substring n ('', name='' @ quoted n)"
    by (rule substring_append_right)
  then have t: "substring n (case tool_name m of None \<Rightarrow> [] | Some n \<Rightarrow> '', name='' @ quoted n)"
    by (simp add: assms)
  show ?thesis
    unfolding repr_message_def
    by (rule substring_append_right, rule substring_append_right,
        rule substring_append_right, rule substring_append_left, rule t)
qed

lemma substring_plain_repr:
  assumes "m \<in> set ms" and "substring sub (repr_message m)"
  shows "substring sub (plain_repr ms)"
proof -
  have "substring sub (join '', '' (map repr_message ms))"
    using assms by (intro substring_join [of "repr_message m"]) auto
  then have "substring sub (join '', '' (map repr_message ms) @ '']'')"
    by (rule substring_append_left)
  then show ?thesis
    unfolding plain_repr_def by (rule substring_append_right)
qed

text \<open>
  A name with a letter outside ASCII is matched whole: \<open>0xEF\<close> is the letter i with
  diaeresis, a word character.
\<close>

lemma non_ascii_name:
  "search_download fw0 audio_exts
     (''Downloaded file to: LLMFiles/na'' @ [CHR 0xEF] @ ''ve.opus'') =
   Some (''na'' @ [CHR 0xEF] @ ''ve.opus'')"
  by code_simp

text \<open>The reference rendering shows the tool name of every tool result.\<close>

lemma shows_tool_names_fw0: "shows_tool_names fw0"
proof -
  have "substring n (plain_repr ms)" if "results_of n ms \<noteq> []" for n ms
  proof -
    from that obtain m where "m \<in> set ms" "tool_name m = Some n"
      by (auto simp: results_of_def filter_empty_conv)
    then show ?thesis
      using substring_plain_repr [of m ms n] substring_repr_tool_name [of m n] by blast
  qed
  then show ?thesis
    by (simp add: shows_tool_names_def fw0_def)
qed

text \<open>What the example windows hold, computed once.\<close>

lemma both_window_facts:
  "downloaded_audio fw0 (recent_messages both_window) = Some ''x.opus''"
  "downloaded_image fw0 (recent_messages both_window) = Some ''pic.png''"
  "\<not> substring ''transcribe_audio'' (str_messages fw0 (recent_messages both_window))"
  "\<not> substring ''ocr_image_tool'' (str_messages fw0 (recent_messages both_window))"
  by code_simp+

lemma later_window_facts:
  "downloaded_audio fw0 (recent_messages later_window) = Some ''x.opus''"
  "map content (results_of ''transcribe_audio'' (recent_messages later_window)) =
     [''add the values of the second column'']"
  "next_forced_call fw0 later_window = None"
  by code_simp+

lemma mixed_window_facts:
  "downloaded_audio fw0 (recent_messages mixed_window) = Some ''x.opus''"
  "map content (results_of ''transcribe_audio'' (recent_messages mixed_window)) =
     [''add the values of the second column'']"
  "downloaded_image fw0 (recent_messages mixed_window) = Some ''pic.png''"
  "results_of ''ocr_image_tool'' (recent_messages mixed_window) = []"
  "next_forced_call fw0 mixed_window = Some (Ocr_image ''pic.png'')"
  by code_simp+

text \<open>
  Claim C5, as stated, fails. In \<open>mixed_window\<close> the audio file \<open>x.opus\<close> and the image
  \<open>pic.png\<close> have both been downloaded and neither has been processed: the only
  transcription in the window is that of the earlier file \<open>a.opus\<close>, and there is no image
  analysis. The forced call is the image analysis of \<open>pic.png\<close>, not the transcription of
  \<open>x.opus\<close>: the transcription of \<open>a.opus\<close> counts for every audio file of the window.
\<close>

theorem audio_before_image_counterexample:
  "downloaded_audio fw0 (recent_messages mixed_window) = Some ''x.opus'' \<and>
   map content (results_of ''transcribe_audio'' (recent_messages mixed_window)) =
     [''add the values of the second column''] \<and>
   downloaded_image fw0 (recent_messages mixed_window) = Some ''pic.png'' \<and>
   results_of ''ocr_image_tool'' (recent_messages mixed_window) = [] \<and>
   next_forced_call fw0 mixed_window = Some (Ocr_image ''pic.png'')"
  by (simp add: mixed_window_facts)

text \<open>
  Claim C5, amended. When the window holds an audio download marker and an image download
  marker and neither tool name (\<open>transcribe_audio\<close>, \<open>ocr_image_tool\<close>) occurs in its text,
  so that no file of either class has been processed in the window, both files are
  pending, and the forced call is the transcription of the most recent audio file; it is
  not an image analysis.
\<close>

theorem audio_before_image:
  assumes "\<exists>m\<in>set (recent_messages w). search_download F audio_exts (content m) \<noteq> None"
    and "\<exists>m\<in>set (recent_messages w). search_download F image_exts (content m) \<noteq> None"
    and "\<not> substring ''transcribe_audio'' (str_messages F (recent_messages w))"
    and "\<not> substring ''ocr_image_tool'' (str_messages F (recent_messages w))"
  shows "pending (downloaded_audio F (recent_messages w))
           (transcribed_audio F (recent_messages w)) \<and>
         pending (downloaded_image F (recent_messages w)) (ocr_run F (recent_messages w)) \<and>
         (\<exists>f. downloaded_audio F (recent_messages w) = Some f \<and>
              next_forced_call F w = Some (Transcribe_audio f)) \<and>
         (\<forall>g. next_forced_call F w \<noteq> Some (Ocr_image g))"
proof -
  from assms(1) obtain f where f: "downloaded_audio F (recent_messages w) = Some f"
    using downloaded_audio_marker [of F "recent_messages w"] by auto
  from assms(2) obtain g where g: "downloaded_image F (recent_messages w) = Some g"
    using downloaded_image_marker [of F "recent_messages w"] by auto
  from f have "f \<noteq> []" by (rule downloaded_audio_clean)
  moreover from g have "g \<noteq> []" using downloaded_image_clean by blast
  ultimately show ?thesis
    using f g assms(3) assms(4)
    by (simp add: next_forced_call_def Let_def pending_def transcribed_audio_def ocr_run_def)
qed

text \<open>A window with the downloads of \<open>x.opus\<close> and \<open>pic.png\<close> and no tool name in it.\<close>

theorem audio_before_image_witness:
  "download_result ''x.opus'' \<in> set (recent_messages both_window) \<and>
   search_download fw0 audio_exts (content (download_result ''x.opus'')) = Some ''x.opus'' \<and>
   download_result ''pic.png'' \<in> set (recent_messages both_window) \<and>
   search_download fw0 image_exts (content (download_result ''pic.png'')) = Some ''pic.png'' \<and>
   \<not> substring ''transcribe_audio'' (str_messages fw0 (recent_messages both_window)) \<and>
   \<not> substring ''ocr_image_tool'' (str_messages fw0 (recent_messages both_window)) \<and>
   next_forced_call fw0 both_window = Some (Transcribe_audio ''x.opus'')"
proof -
  have r: "recent_messages both_window = both_window"
    by (simp add: recent_messages_def both_window_def)
  have ma: "download_result ''x.opus'' \<in> set (recent_messages both_window)"
    unfolding r by (simp add: both_window_def)
  have sa: "search_download fw0 audio_exts (content (download_result ''x.opus'')) = Some ''x.opus''"
    by code_simp
  have mi: "download_result ''pic.png'' \<in> set (recent_messages both_window)"
    unfolding r by (simp add: both_window_def)
  have si: "search_download fw0 image_exts (content (download_result ''pic.png'')) = Some ''pic.png''"
    by code_simp
  have a: "\<exists>m\<in>set (recent_messages both_window).
      search_download fw0 audio_exts (content m) \<noteq> None"
    using ma sa by force
  have i: "\<exists>m\<in>set (recent_messages both_window).
      search_download fw0 image_exts (content m) \<noteq> None"
    using mi si by force
  from audio_before_image [OF a i both_window_facts(3) both_window_facts(4)]
    ma sa mi si both_window_facts
  show ?thesis by simp
qed

text \<open>
  Claim C6, as stated, fails. In \<open>later_window\<close> the most recent download marker is that
  of \<open>x.opus\<close>, and the only transcription result of the window is that of the earlier file
  \<open>a.opus\<close>; no result mentions \<open>x.opus\<close>. No call is forced: the gate does not relate a
  transcription to a file.
\<close>

theorem gate_per_file_counterexample:
  "downloaded_audio fw0 (recent_messages later_window) = Some ''x.opus'' \<and>
   map content (results_of ''transcribe_audio'' (recent_messages later_window)) =
     [''add the values of the second column''] \<and>
   next_forced_call fw0 later_window = None"
  by (simp add: later_window_facts)

text \<open>
  Claim C6, amended. Over the last 15 messages processing is tracked per class, not per
  file. Once the window holds a transcription result (an image analysis result), of any
  file, no transcription (image analysis) is forced. When the window holds an audio
  download marker and the name \<open>transcribe_audio\<close> does not occur in it, the file of the
  most recent message with such a marker is forced to transcription; when no transcription
  is forced, the window holds an image download marker and the name \<open>ocr_image_tool\<close> does
  not occur in it, the file of the most recent message with such a marker is forced to
  image analysis. A file is found exactly when some message of the window has a marker of
  its class, and a later message with a marker replaces the file of an earlier one. The
  hypothesis is that the text of a list of messages shows the tool name of its tool
  results.
\<close>

theorem gate_per_class:
  assumes "shows_tool_names F"
  shows
    "(results_of ''transcribe_audio'' (recent_messages w) \<noteq> [] \<longrightarrow>
        (\<forall>f'. next_forced_call F w \<noteq> Some (Transcribe_audio f'))) \<and>
     (results_of ''ocr_image_tool'' (recent_messages w) \<noteq> [] \<longrightarrow>
        (\<forall>g'. next_forced_call F w \<noteq> Some (Ocr_image g'))) \<and>
     (downloaded_audio F (recent_messages w) = Some f \<longrightarrow>
        \<not> substring ''transcribe_audio'' (str_messages F (recent_messages w)) \<longrightarrow>
        next_forced_call F w = Some (Transcribe_audio f)) \<and>
     ((\<forall>f'. next_forced_call F w \<noteq> Some (Transcribe_audio f')) \<longrightarrow>
        downloaded_image F (recent_messages w) = Some g \<longrightarrow>
        \<not> substring ''ocr_image_tool'' (str_messages F (recent_messages w)) \<longrightarrow>
        next_forced_call F w = Some (Ocr_image g)) \<and>
     (downloaded_audio F r \<noteq> None \<longleftrightarrow>
        (\<exists>m\<in>set r. search_download F audio_exts (content m) \<noteq> None)) \<and>
     (downloaded_image F r \<noteq> None \<longleftrightarrow>
        (\<exists>m\<in>set r. search_download F image_exts (content m) \<noteq> None)) \<and>
     downloaded_audio F (r @ [m]) =
       (case search_download F audio_exts (content m) of
          Some f' \<Rightarrow> Some f' | None \<Rightarrow> downloaded_audio F r) \<and>
     downloaded_image F (r @ [m]) =
       (case search_download F image_exts (content m) of
          Some f' \<Rightarrow> Some f' | None \<Rightarrow> downloaded_image F r)"
proof (intro conjI impI)
  assume "results_of ''transcribe_audio'' (recent_messages w) \<noteq> []"
  with assms have "transcribed_audio F (recent_messages w)"
    by (simp add: shows_tool_names_def transcribed_audio_def)
  then show "\<forall>f'. next_forced_call F w \<noteq> Some (Transcribe_audio f')"
    by (simp add: next_forced_call_def Let_def pending_def split: option.split)
next
  assume "results_of ''ocr_image_tool'' (recent_messages w) \<noteq> []"
  with assms have "ocr_run F (recent_messages w)"
    by (simp add: shows_tool_names_def ocr_run_def)
  then show "\<forall>g'. next_forced_call F w \<noteq> Some (Ocr_image g')"
    by (simp add: next_forced_call_def Let_def pending_def split: option.split)
next
  assume f: "downloaded_audio F (recent_messages w) = Some f"
    and n: "\<not> substring ''transcribe_audio'' (str_messages F (recent_messages w))"
  from f have "f \<noteq> []" by (rule downloaded_audio_clean)
  with f n show "next_forced_call F w = Some (Transcribe_audio f)"
    by (simp add: next_forced_call_def Let_def pending_def transcribed_audio_def)
next
  assume a: "\<forall>f'. next_forced_call F w \<noteq> Some (Transcribe_audio f')"
    and g: "downloaded_image F (recent_messages w) = Some g"
    and n: "\<not> substring ''ocr_image_tool'' (str_messages F (recent_messages w))"
  from g have c: "g \<noteq> []" "image_argument g = g"
    using downloaded_image_clean by blast+
  from a have "\<not> pending (downloaded_audio F (recent_messages w))
      (transcribed_audio F (recent_messages w))"
    by (auto simp: next_forced_call_def Let_def)
  with g n c show "next_forced_call F w = Some (Ocr_image g)"
    by (simp add: next_forced_call_def Let_def pending_def ocr_run_def)
qed (rule downloaded_audio_marker downloaded_image_marker downloaded_audio_snoc
      downloaded_image_snoc)+

text \<open>
  In \<open>later_window\<close> a transcription result is in the window and no transcription is
  forced; in \<open>both_window\<close> there is none and \<open>x.opus\<close> is forced to transcription.
\<close>

theorem gate_per_class_witness:
  "shows_tool_names fw0 \<and>
   results_of ''transcribe_audio'' (recent_messages later_window) \<noteq> [] \<and>
   (\<forall>f'. next_forced_call fw0 later_window \<noteq> Some (Transcribe_audio f')) \<and>
   downloaded_audio fw0 (recent_messages both_window) = Some ''x.opus'' \<and>
   \<not> substring ''transcribe_audio'' (str_messages fw0 (recent_messages both_window)) \<and>
   next_forced_call fw0 both_window = Some (Transcribe_audio ''x.opus'')"
proof -
  have t: "results_of ''transcribe_audio'' (recent_messages later_window) \<noteq> []"
    using later_window_facts(2) by auto
  from gate_per_class [OF shows_tool_names_fw0, of later_window]
  have l: "\<forall>f'. next_forced_call fw0 later_window \<noteq> Some (Transcribe_audio f')"
    using t by blast
  from gate_per_class [OF shows_tool_names_fw0, of both_window "''x.opus''"]
  have b: "next_forced_call fw0 both_window = Some (Transcribe_audio ''x.opus'')"
    using both_window_facts(1) both_window_facts(3) by blast
  from shows_tool_names_fw0 t l b both_window_facts show ?thesis
    by simp
qed

text \<open>
  A defect of the gate, apart from its design. The system prompt names both tools
  (lines 73 and 84), and it is in the window as long as the history has at most 15
  messages: the two tests on the text of the window then succeed whatever has been
  processed, and nothing is forced. In \<open>first_window\<close>, the first turns of a session,
  \<open>x.opus\<close> has been downloaded, the window holds no transcription result, and no call is
  forced.
\<close>

lemma system_prompt_names:
  "substring ''transcribe_audio'' (SYSTEM_PROMPT email secret)"
  "substring ''ocr_image_tool'' (SYSTEM_PROMPT email secret)"
proof -
  have a: "substring ''transcribe_audio'' audio_step"
    by code_simp
  have o: "substring ''ocr_image_tool'' ocr_step"
    by code_simp
  show "substring ''transcribe_audio'' (SYSTEM_PROMPT email secret)"
    unfolding SYSTEM_PROMPT_def by (rule substring_concat [OF _ a]) simp
  show "substring ''ocr_image_tool'' (SYSTEM_PROMPT email secret)"
    unfolding SYSTEM_PROMPT_def by (rule substring_concat [OF _ o]) simp
qed

lemma gate_silent:
  assumes "transcribed_audio F (recent_messages w)" and "ocr_run F (recent_messages w)"
  shows "next_forced_call F w = None"
  using assms by (simp add: next_forced_call_def Let_def pending_def split: option.split)

lemma system_prompt_silences_gate:
  "downloaded_audio fw0 (recent_messages first_window) = Some ''x.opus'' \<and>
   results_of ''transcribe_audio'' (recent_messages first_window) = [] \<and>
   next_forced_call fw0 first_window = None"
proof (intro conjI)
  have r: "recent_messages first_window = first_window"
    by (simp add: recent_messages_def first_window_def)
  have s: "search_download fw0 audio_exts (content (download_result ''x.opus'')) = Some ''x.opus''"
    by code_simp
  have e: "first_window =
     [system_message (SYSTEM_PROMPT ''a@b.org'' ''s3cret''), human_message q1,
      tool_request ''download_file''
        [(''url'', JStr ''https://quiz.test/x.opus''), (''filename'', JStr ''x.opus'')]] @
     [download_result ''x.opus'']"
    by (simp add: first_window_def)
  show "downloaded_audio fw0 (recent_messages first_window) = Some ''x.opus''"
    unfolding r by (simp only: e downloaded_audio_snoc s option.case)
  show "results_of ''transcribe_audio'' (recent_messages first_window) = []"
    unfolding r
    by (simp add: results_of_def first_window_def system_message_def
        human_message_def tool_request_def download_result_def tool_result_def)
  have m: "system_message (SYSTEM_PROMPT ''a@b.org'' ''s3cret'') \<in> set first_window"
    by (simp add: first_window_def)
  have c: "content (system_message (SYSTEM_PROMPT ''a@b.org'' ''s3cret'')) =
      SYSTEM_PROMPT ''a@b.org'' ''s3cret''"
    by (simp add: system_message_def)
  have "transcribed_audio fw0 (recent_messages first_window)"
    unfolding r transcribed_audio_def
    using substring_plain_repr [OF m, of "''transcribe_audio''"]
      substring_repr_message [of "''transcribe_audio''"
        "system_message (SYSTEM_PROMPT ''a@b.org'' ''s3cret'')"]
      system_prompt_names(1)
    by (simp add: fw0_def c)
  moreover have "ocr_run fw0 (recent_messages first_window)"
    unfolding r ocr_run_def
    using substring_plain_repr [OF m, of "''ocr_image_tool''"]
      substring_repr_message [of "''ocr_image_tool''"
        "system_message (SYSTEM_PROMPT ''a@b.org'' ''s3cret'')"]
      system_prompt_names(2)
    by (simp add: fw0_def c)
  ultimately show "next_forced_call fw0 first_window = None"
    by (rule gate_silent)
qed

end
